theory Spec2Isabelle
  imports Complex_Main "HOL-Library.Multiset"
begin

section \<open>The mutation-scan pipeline of \<^verbatim>\<open>src/web/zero_shot_tab.py\<close>\<close>

text \<open>
  The theory embeds the pure part of the zero-shot tab: credential resolution
  (\<^verbatim>\<open>get_api_key\<close>), the report prompt builder (\<^verbatim>\<open>generate_mutation_ai_prompt\<close>),
  the heatmap data builder (\<^verbatim>\<open>prepare_plotly_heatmap_data\<close>), the figure builder,
  the two view handlers and the prediction handler.

  Conventions of the embedding.
  \<^item> A Python string is a \<^typ>\<open>string\<close> whose characters are code points below 256;
    code points from 256 on are outside the model. The one text constant of the source
    with such a code point (the cross mark U+274C) occurs only under
    \<^verbatim>\<open>startswith\<close>; the summary texts are therefore given by their UTF-8 bytes, on
    which the prefix test agrees with the one on code points.
  \<^item> A float is a rational number and float arithmetic is exact arithmetic; a missing
    value is the cell \<open>NaN\<close>. Infinite scores are outside the model.
  \<^item> pandas, numpy, plotly, the scorer subprocess and the HTTP call are not part of the
    repository. pandas and numpy operations are written out from their documented
    meaning; the scorer's table, the chat completion and the table renderer
    \<^verbatim>\<open>to_string\<close> are parameters.
\<close>

subsection \<open>Strings\<close>

definition lower_char :: "char \<Rightarrow> char" where
  \<comment> \<open>\<^verbatim>\<open>str.lower\<close> on one code point below 256: A-Z and the Latin-1 capitals.\<close>
  "lower_char c =
     (let n = (of_char c :: nat)
      in if (65 \<le> n \<and> n \<le> 90) \<or> (192 \<le> n \<and> n \<le> 222 \<and> n \<noteq> 215)
         then char_of (n + 32) else c)"

definition lower :: "string \<Rightarrow> string" where
  "lower s = map lower_char s"

definition startswith :: "string \<Rightarrow> string \<Rightarrow> bool" where
  \<comment> \<open>\<^verbatim>\<open>s.startswith(p)\<close>\<close>
  "startswith s p = (take (length p) s = p)"

fun contains :: "string \<Rightarrow> string \<Rightarrow> bool" where
  \<comment> \<open>\<^verbatim>\<open>p in s\<close> for strings: \<open>contains s p\<close>\<close>
  "contains [] p = (p = [])"
| "contains (c # cs) p = (startswith (c # cs) p \<or> contains cs p)"

definition isspace :: "char \<Rightarrow> bool" where
  \<comment> \<open>the code points below 256 that \<^verbatim>\<open>str.strip\<close> removes\<close>
  "isspace c =
     (let n = (of_char c :: nat)
      in (9 \<le> n \<and> n \<le> 13) \<or> (28 \<le> n \<and> n \<le> 32) \<or> n = 133 \<or> n = 160)"

definition strip :: "string \<Rightarrow> string" where
  "strip s = rev (dropWhile isspace (rev (dropWhile isspace s)))"

definition is_ascii_digit :: "char \<Rightarrow> bool" where
  "is_ascii_digit c = (let n = (of_char c :: nat) in 48 \<le> n \<and> n \<le> 57)"

definition isdigit_char :: "char \<Rightarrow> bool" where
  \<comment> \<open>\<^verbatim>\<open>str.isdigit\<close> on one code point below 256: the decimal digits and the
      superscripts two, three and one (U+00B2, U+00B3, U+00B9)\<close>
  "isdigit_char c =
     (is_ascii_digit c \<or> c = CHR 0xB2 \<or> c = CHR 0xB3 \<or> c = CHR 0xB9)"

definition isdigit :: "string \<Rightarrow> bool" where
  "isdigit s = (s \<noteq> [] \<and> list_all isdigit_char s)"

definition digit_char :: "nat \<Rightarrow> char" where
  "digit_char d = char_of (48 + d)"

fun str_nat :: "nat \<Rightarrow> string" where
  \<comment> \<open>the decimal rendering of a non-negative integer, as \<^verbatim>\<open>str\<close> and f-strings give it\<close>
  "str_nat n = (if n < 10 then [digit_char n] else str_nat (n div 10) @ [digit_char (n mod 10)])"

declare str_nat.simps [simp del]

subsection \<open>Tables\<close>

datatype cell = Str string | Num rat | NaN

record dataframe =
  columns :: "string list"
  rows :: "cell list list"

datatype error = KeyError | ValueError | OverflowError | TypeError

fun index_of :: "'a list \<Rightarrow> 'a \<Rightarrow> nat option" where
  \<comment> \<open>the first index at which a value occurs\<close>
  "index_of [] a = None"
| "index_of (x # xs) a = (if x = a then Some 0 else map_option Suc (index_of xs a))"

definition cell_at :: "cell list \<Rightarrow> nat \<Rightarrow> cell" where
  \<comment> \<open>a row shorter than the header is padded with missing values, as the CSV reader does\<close>
  "cell_at r i = (if i < length r then r ! i else NaN)"

definition empty_df :: "dataframe \<Rightarrow> bool" where
  \<comment> \<open>\<^verbatim>\<open>DataFrame.empty\<close>: one of the two axes has length 0\<close>
  "empty_df df = (rows df = [] \<or> columns df = [])"

subsection \<open>Credential resolution\<close>

definition env_var_map :: "string \<rightharpoonup> string" where
  "env_var_map = [''DeepSeek'' \<mapsto> ''DEEPSEEK_API_KEY'']"

definition get_api_key :: "(string \<rightharpoonup> string) \<Rightarrow> string \<Rightarrow> string \<Rightarrow> string option" where
  \<comment> \<open>the first argument is the process environment read by \<^verbatim>\<open>os.getenv\<close>\<close>
  "get_api_key env ai_provider user_input_key =
     (if user_input_key \<noteq> [] \<and> strip user_input_key \<noteq> [] then Some (strip user_input_key)
      else case env_var_map ai_provider of
             None \<Rightarrow> None
           | Some env_var_name \<Rightarrow>
               (if env_var_name \<noteq> [] then
                  (case env env_var_name of
                     None \<Rightarrow> None
                   | Some v \<Rightarrow> if v \<noteq> [] then Some v else None)
                else None))"

subsection \<open>Report prompt builder\<close>

text \<open>
  The prompt is one f-string with four holes: the model name, the score column name and
  the two rendered slices. The record keeps the four values; the fixed text around
  them is not repeated here.
\<close>

record prompt =
  model_name_in :: string
  score_col_in :: string
  top_mutations_str :: string
  lowest_mutations_str :: string

definition find_score_col :: "string list \<Rightarrow> string option" where
  \<comment> \<open>\<^verbatim>\<open>next((col for col in df.columns if 'score' in col.lower()), None)\<close>\<close>
  "find_score_col cols = find (\<lambda>col. contains (lower col) ''score'') cols"

definition top_count :: "nat \<Rightarrow> nat" where
  \<comment> \<open>\<^verbatim>\<open>int(num_rows * 0.05)\<close> is \<open>num_rows div 20\<close> for every row count below \<open>2^50\<close>\<close>
  "top_count num_rows = (if num_rows < 5 then num_rows else max 1 (num_rows div 20))"

definition lowest_count :: "nat \<Rightarrow> nat" where
  "lowest_count num_rows = (if num_rows < 5 then 0 else max 1 (num_rows div 20))"

definition head_df :: "nat \<Rightarrow> 'a list \<Rightarrow> 'a list" where
  "head_df n xs = take n xs"

definition tail_df :: "nat \<Rightarrow> 'a list \<Rightarrow> 'a list" where
  "tail_df n xs = drop (length xs - n) xs"

definition column_cell :: "dataframe \<Rightarrow> string \<Rightarrow> cell list \<Rightarrow> cell" where
  \<comment> \<open>the cell of a row under a column name; every caller passes a name of the header\<close>
  "column_cell df name r =
     (case index_of (columns df) name of Some i \<Rightarrow> cell_at r i | None \<Rightarrow> NaN)"

definition select2 :: "dataframe \<Rightarrow> string \<Rightarrow> string \<Rightarrow> cell list list \<Rightarrow> (cell \<times> cell) list" where
  \<comment> \<open>\<^verbatim>\<open>frame[[mutant_col, score_col]]\<close> on a slice of the rows\<close>
  "select2 df mutant_col score_col rs =
     map (\<lambda>r. (column_cell df mutant_col r, column_cell df score_col r)) rs"

definition prompt_mutant_col :: "string list \<Rightarrow> string option" where
  \<comment> \<open>lines 68 to 74: the column \<open>mutant\<close>, else the first column, else none\<close>
  "prompt_mutant_col cols =
     (if ''mutant'' \<in> set cols then Some ''mutant''
      else if length cols > 0 then Some (cols ! 0)
      else None)"

definition prompt_score_col :: "string list \<Rightarrow> string option" where
  \<comment> \<open>lines 77 to 83: a column named after the score, else the second column, else none\<close>
  "prompt_score_col cols =
     (case find_score_col cols of
        Some c \<Rightarrow> Some c
      | None \<Rightarrow> if length cols > 1 then Some (cols ! 1) else None)"

definition generate_mutation_ai_prompt ::
  "(string \<times> string \<Rightarrow> (cell \<times> cell) list \<Rightarrow> string) \<Rightarrow> dataframe \<Rightarrow> string \<Rightarrow> prompt option" where
  \<comment> \<open>the first argument renders a two-column frame (\<^verbatim>\<open>to_string(index=False)\<close>)\<close>
  "generate_mutation_ai_prompt to_string results_df model_name =
     (case prompt_mutant_col (columns results_df) of
        None \<Rightarrow> None
      | Some mutant_col \<Rightarrow>
         (case prompt_score_col (columns results_df) of
            None \<Rightarrow> None
          | Some score_col \<Rightarrow>
             (let num_rows = length (rows results_df);
                  top_mutations = head_df (top_count num_rows) (rows results_df);
                  lowest_mutations =
                    (if lowest_count num_rows > 0
                     then tail_df (lowest_count num_rows) (rows results_df) else [])
              in Some \<lparr> model_name_in = model_name,
                        score_col_in = score_col,
                        top_mutations_str =
                          to_string (mutant_col, score_col)
                            (select2 results_df mutant_col score_col top_mutations),
                        lowest_mutations_str =
                          (if lowest_mutations \<noteq> []
                           then to_string (mutant_col, score_col)
                                  (select2 results_df mutant_col score_col lowest_mutations)
                           else ''N/A'') \<rparr>)))"

subsection \<open>Ranking and binning\<close>

definition rank_min :: "rat list \<Rightarrow> rat \<Rightarrow> nat" where
  \<comment> \<open>\<^verbatim>\<open>Series.rank(method='min', ascending=False)\<close> for one value of the series: the
      values are ordered from the highest down and numbered from 1; a value gets the
      lowest number of its tie group\<close>
  "rank_min scores s = Suc (length (takeWhile (\<lambda>t. t \<noteq> s) (rev (sort scores))))"

definition inverted_bin :: "nat \<Rightarrow> nat \<Rightarrow> int" where
  \<comment> \<open>\<^verbatim>\<open>11 - np.ceil(rank / (n / 10)).clip(upper=10)\<close>\<close>
  "inverted_bin rk n = 11 - min \<lceil>(of_nat rk :: rat) / (of_nat n / 10)\<rceil> 10"

definition round_half_even :: "rat \<Rightarrow> int" where
  "round_half_even x =
     (let f = \<lfloor>x\<rfloor>; d = x - of_int f
      in if d < 1 / 2 then f else if 1 / 2 < d then f + 1
         else if even f then f else f + 1)"

definition round3 :: "rat \<Rightarrow> rat" where
  \<comment> \<open>\<^verbatim>\<open>round(x, 3)\<close>\<close>
  "round3 x = of_int (round_half_even (x * 1000)) / 1000"

subsection \<open>Heatmap data\<close>

definition is_valid_mutation :: "cell \<Rightarrow> bool" where
  \<comment> \<open>\<^verbatim>\<open>isinstance(m, str) and len(m) > 2 and m[0] != m[-1] and m[1:-1].isdigit()\<close>\<close>
  "is_valid_mutation m =
     (case m of
        Str s \<Rightarrow> length s > 2 \<and> hd s \<noteq> last s \<and> isdigit (butlast (tl s))
      | _ \<Rightarrow> False)"

definition str_of :: "cell \<Rightarrow> string" where
  "str_of m = (case m of Str s \<Rightarrow> s | _ \<Rightarrow> [])"

definition digit_value :: "char \<Rightarrow> nat" where
  "digit_value c = of_char c - 48"

definition py_int :: "string \<Rightarrow> error + nat" where
  \<comment> \<open>\<^verbatim>\<open>astype(int)\<close> on one string that passed \<^verbatim>\<open>isdigit\<close>: \<^verbatim>\<open>int\<close> rejects the
      superscript digits, and the value has to fit 64 signed bits\<close>
  "py_int s =
     (if \<not> list_all is_ascii_digit s then Inl ValueError
      else let n = foldl (\<lambda>a c. 10 * a + int (digit_value c)) 0 s
           in if n < 2 ^ 63 then Inr (nat n) else Inl OverflowError)"

fun collect :: "('e + 'a) list \<Rightarrow> 'e + 'a list" where
  \<comment> \<open>the results of an element-wise conversion, or the first error\<close>
  "collect [] = Inr []"
| "collect (x # xs) =
     (case x of
        Inl e \<Rightarrow> Inl e
      | Inr a \<Rightarrow> (case collect xs of Inl e \<Rightarrow> Inl e | Inr as \<Rightarrow> Inr (a # as)))"

record ranked_row =
  mutant :: string
  score :: rat
  rank :: nat
  inverted_rank_bin :: int
  position :: nat

type_synonym matrix = "rat option list list"

record heatmap_data =
  x_labels :: string
  y_labels :: "string list"
  z_data :: matrix
  rank_matrix :: matrix
  score_matrix :: matrix
  score_col :: string

definition amino_acids :: string where
  "amino_acids = ''ACDEFGHIKLMNPQRSTVWY''"

definition scores_of :: "cell list \<Rightarrow> error + rat list" where
  \<comment> \<open>the score column of the valid rows as numbers. Ranking a column with text in it
      and casting the rank of a missing score to an integer both raise; the model does
      not follow pandas further on such a column\<close>
  "scores_of cs =
     (if \<exists>c \<in> set cs. case c of Str _ \<Rightarrow> True | _ \<Rightarrow> False then Inl TypeError
      else if NaN \<in> set cs then Inl ValueError
      else Inr (map (\<lambda>c. case c of Num q \<Rightarrow> q | _ \<Rightarrow> 0) cs))"

definition annotate :: "(string \<times> rat \<times> nat) list \<Rightarrow> ranked_row list" where
  \<comment> \<open>the valid rows (code, score, position) with the two derived columns \<open>rank\<close> and
      \<open>inverted_rank_bin\<close> of lines 149 and 150\<close>
  "annotate vs =
     (let scores = map (\<lambda>(m, s, p). s) vs
      in map (\<lambda>(m, s, p).
                \<lparr> mutant = m, score = s, rank = rank_min scores s,
                  inverted_rank_bin = inverted_bin (rank_min scores s) (length vs),
                  position = p \<rparr>) vs)"

definition rank_table :: "dataframe \<Rightarrow> error + (string \<times> ranked_row list) option" where
  \<comment> \<open>lines 145 to 151: the score column name and the annotated valid rows;
      \<open>Inr None\<close> when no column name contains \<open>score\<close>\<close>
  "rank_table df =
     (case find_score_col (columns df) of
        None \<Rightarrow> Inr None
      | Some sc \<Rightarrow>
         (case index_of (columns df) ''mutant'' of
            None \<Rightarrow> Inl KeyError
          | Some mi \<Rightarrow>
             (let valid = filter (\<lambda>r. is_valid_mutation (cell_at r mi)) (rows df)
              in if valid = [] then Inr (Some (sc, []))
                 else
                   (case scores_of (map (column_cell df sc) valid) of
                      Inl e \<Rightarrow> Inl e
                    | Inr ss \<Rightarrow>
                       (let ms = map (\<lambda>r. str_of (cell_at r mi)) valid
                        in case collect (map (\<lambda>m. py_int (butlast (tl m))) ms) of
                             Inl e \<Rightarrow> Inl e
                           | Inr ps \<Rightarrow> Inr (Some (sc, annotate (zip ms (zip ss ps)))))))))"

definition set_cell :: "matrix \<Rightarrow> nat \<Rightarrow> nat \<Rightarrow> rat \<Rightarrow> matrix" where
  \<comment> \<open>\<^verbatim>\<open>m[y, x] = v\<close>\<close>
  "set_cell m y x v = m[y := (m ! y)[x := Some v]]"

definition cell_of :: "nat list \<Rightarrow> string \<Rightarrow> ranked_row \<Rightarrow> (nat \<times> nat) option" where
  \<comment> \<open>lines 163 to 165: the indices \<open>(y_idx, x_idx)\<close> of a row, if its position is in
      \<open>y_map\<close> and its last letter in \<open>x_map\<close>; the two maps are the index functions
      of two lists without repetition\<close>
  "cell_of sorted_positions xl row =
     (case index_of sorted_positions (position row) of
        None \<Rightarrow> None
      | Some y_idx \<Rightarrow>
         (case index_of xl (last (mutant row)) of
            None \<Rightarrow> None
          | Some x_idx \<Rightarrow> Some (y_idx, x_idx)))"

definition write_row ::
  "nat list \<Rightarrow> string \<Rightarrow> ranked_row \<Rightarrow> matrix \<times> matrix \<times> matrix \<Rightarrow> matrix \<times> matrix \<times> matrix" where
  \<comment> \<open>one pass of the loop over the rows\<close>
  "write_row sorted_positions xl row = (\<lambda>(z, r, s).
     case cell_of sorted_positions xl row of
       None \<Rightarrow> (z, r, s)
     | Some (y_idx, x_idx) \<Rightarrow>
        (set_cell z y_idx x_idx (of_int (inverted_rank_bin row)),
         set_cell r y_idx x_idx (of_nat (rank row)),
         set_cell s y_idx x_idx (round3 (score row))))"

definition wt_map_of :: "ranked_row list \<Rightarrow> (nat \<rightharpoonup> char)" where
  \<comment> \<open>\<^verbatim>\<open>{pos: mut[0] for pos, mut in zip(...)}\<close>: a later row replaces an earlier one\<close>
  "wt_map_of rs = fold (\<lambda>r m. m(position r \<mapsto> hd (mutant r))) rs Map.empty"

definition build_matrices :: "string \<Rightarrow> nat list \<Rightarrow> ranked_row list \<Rightarrow> heatmap_data" where
  \<comment> \<open>lines 156 to 167, from the retained positions and the retained rows\<close>
  "build_matrices sc sorted_positions rs =
     (let xl = amino_acids;
          wt_map = wt_map_of rs;
          yl = map (\<lambda>pos. (case wt_map pos of Some c \<Rightarrow> c | None \<Rightarrow> CHR ''?'') # str_nat pos)
                 sorted_positions;
          init = replicate (length yl) (replicate (length xl) None);
          (z, r, s) = fold (write_row sorted_positions xl) rs (init, init, init)
      in \<lparr> x_labels = xl, y_labels = yl, z_data = z, rank_matrix = r,
           score_matrix = s, score_col = sc \<rparr>)"

definition retained_positions :: "nat option \<Rightarrow> ranked_row list \<Rightarrow> nat list" where
  \<comment> \<open>lines 152 to 154: the distinct positions in ascending order, cut to the cap\<close>
  "retained_positions max_residues rs =
     (let sorted_positions = sort (remdups (map position rs))
      in case max_residues of
           None \<Rightarrow> sorted_positions
         | Some k \<Rightarrow> take k sorted_positions)"

definition retained_rows :: "nat option \<Rightarrow> ranked_row list \<Rightarrow> ranked_row list" where
  \<comment> \<open>line 155: with a cap, only the rows at retained positions stay\<close>
  "retained_rows max_residues rs =
     (case max_residues of
        None \<Rightarrow> rs
      | Some k \<Rightarrow> filter (\<lambda>r. position r \<in> set (retained_positions max_residues rs)) rs)"

definition prepare_plotly_heatmap_data ::
  "dataframe \<Rightarrow> nat option \<Rightarrow> error + heatmap_data option" where
  \<comment> \<open>\<open>Inr None\<close> is the tuple of six \<^verbatim>\<open>None\<close>; \<open>max_residues\<close> is \<open>None\<close> or a
      non-negative cap\<close>
  "prepare_plotly_heatmap_data df max_residues =
     (case rank_table df of
        Inl e \<Rightarrow> Inl e
      | Inr None \<Rightarrow> Inr None
      | Inr (Some (sc, rs)) \<Rightarrow>
          if rs = [] then
            Inr (Some \<lparr> x_labels = [], y_labels = [], z_data = [[]],
                        rank_matrix = [[]], score_matrix = [[]], score_col = sc \<rparr>)
          else
            Inr (Some (build_matrices sc (retained_positions max_residues rs)
                         (retained_rows max_residues rs))))"

subsection \<open>Figures and the two view handlers\<close>

text \<open>
  A plotly figure is kept as the data the source puts into it: the layout title, the
  layout height, and the one heatmap trace with its \<open>z\<close>, \<open>x\<close>, \<open>y\<close> and
  \<open>customdata\<close> (the fields \<open>trace_z\<close>, \<open>trace_x\<close>, \<open>trace_y\<close>). The colour scale, the colour bar, the hover template and the axis
  titles are the same constants in every heatmap figure and are left out. A
  \<^verbatim>\<open>gr.update(visible=b)\<close> is the boolean \<open>b\<close>.
\<close>

record heatmap_trace =
  trace_z :: matrix
  trace_x :: string
  trace_y :: "string list"
  customdata :: "(rat option \<times> rat option) list list"

record figure =
  fig_title :: "string option"
  fig_height :: "nat option"
  fig_trace :: "heatmap_trace option"

definition blank_figure :: figure where
  \<comment> \<open>\<^verbatim>\<open>go.Figure()\<close>\<close>
  "blank_figure = \<lparr> fig_title = None, fig_height = None, fig_trace = None \<rparr>"

definition titled_figure :: "string \<Rightarrow> figure" where
  \<comment> \<open>a figure without data that has only a title\<close>
  "titled_figure t = \<lparr> fig_title = Some t, fig_height = None, fig_trace = None \<rparr>"

definition array_size :: "matrix \<Rightarrow> nat" where
  \<comment> \<open>\<^verbatim>\<open>ndarray.size\<close>\<close>
  "array_size m = sum_list (map length m)"

definition generate_plotly_heatmap :: "heatmap_data option \<Rightarrow> bool \<Rightarrow> nat \<Rightarrow> figure" where
  \<comment> \<open>the first argument stands for the five unpacked items of the data tuple;
      \<open>None\<close> is the tuple of \<^verbatim>\<open>None\<close>\<close>
  "generate_plotly_heatmap plot_data is_partial total_residues =
     (case plot_data of
        None \<Rightarrow> titled_figure ''No data to display''
      | Some d \<Rightarrow>
          if array_size (z_data d) = 0 then titled_figure ''No data to display''
          else
            (let num_residues = length (y_labels d);
                 height_base = (if is_partial then 150 else 200);
                 dynamic_height = max 400 (min 8000 (30 * num_residues + height_base));
                 custom_data = map2 zip (rank_matrix d) (score_matrix d);
                 title_text =
                   ''Prediction Heatmap'' @
                   (if is_partial \<and> total_residues \<noteq> 0 \<and> total_residues > length (y_labels d)
                    then '' (Showing first '' @ str_nat num_residues @ '' of ''
                           @ str_nat total_residues @ '' residues)''
                    else [])
             in \<lparr> fig_title = Some title_text, fig_height = Some dynamic_height,
                  fig_trace = Some \<lparr> trace_z = z_data d, trace_x = x_labels d,
                                     trace_y = y_labels d, customdata = custom_data \<rparr> \<rparr>))"

definition get_total_residues_count :: "dataframe \<Rightarrow> error + nat" where
  "get_total_residues_count df =
     (if empty_df df then Inr 0
      else case index_of (columns df) ''mutant'' of
             None \<Rightarrow> Inl KeyError
           | Some mi \<Rightarrow>
              (let valid = filter (\<lambda>r. is_valid_mutation (cell_at r mi)) (rows df)
               in if valid = [] then Inr 0
                  else case collect (map (\<lambda>r. py_int (butlast (tl (str_of (cell_at r mi))))) valid) of
                         Inl e \<Rightarrow> Inl e
                       | Inr ps \<Rightarrow> Inr (length (remdups ps))))"

definition expand_heatmap :: "dataframe option \<Rightarrow> error + figure \<times> bool \<times> bool" where
  "expand_heatmap full_df =
     (case full_df of
        None \<Rightarrow> Inr (blank_figure, True, False)
      | Some df \<Rightarrow>
          if empty_df df then Inr (blank_figure, True, False)
          else
            (case prepare_plotly_heatmap_data df None of
               Inl e \<Rightarrow> Inl e
             | Inr data_tuple \<Rightarrow>
                (case get_total_residues_count df of
                   Inl e \<Rightarrow> Inl e
                 | Inr total_residues \<Rightarrow>
                     Inr (generate_plotly_heatmap data_tuple False total_residues, False, True))))"

definition collapse_heatmap :: "dataframe option \<Rightarrow> error + figure \<times> bool \<times> bool" where
  "collapse_heatmap full_df =
     (case full_df of
        None \<Rightarrow> Inr (blank_figure, True, False)
      | Some df \<Rightarrow>
          if empty_df df then Inr (blank_figure, True, False)
          else
            (case prepare_plotly_heatmap_data df (Some 40) of
               Inl e \<Rightarrow> Inl e
             | Inr data_tuple \<Rightarrow>
                (case get_total_residues_count df of
                   Inl e \<Rightarrow> Inl e
                 | Inr total_residues \<Rightarrow>
                     Inr (generate_plotly_heatmap data_tuple True total_residues, True, False))))"

subsection \<open>The prediction handler\<close>

text \<open>
  \<^verbatim>\<open>handle_prediction_with_ai\<close> is a generator. Its model returns the updates it
  yields, in order, and how it ends: with an exception, or by returning, and then with
  the dictionary \<^verbatim>\<open>files_to_zip\<close> it handed to \<^verbatim>\<open>create_zip_archive\<close> if it got
  that far. The parameters of the model stand for what lies outside the file:
  the process environment, the scorer (\<^verbatim>\<open>run_zero_shot_prediction\<close>, which catches
  every exception), the table renderer, the chat completion (\<^verbatim>\<open>call_ai_api\<close>, which
  catches every exception and returns a text) and the clock. Writing the table, the
  figure of the complete view, the report and the archive to disk is not modelled. The
  texts of the handler are given by their UTF-8 bytes.
\<close>

definition cross_mark :: string where
  \<comment> \<open>U+274C\<close>
  "cross_mark = [CHR 0xE2, CHR 0x9D, CHR 0x8C]"

definition hourglass :: string where
  \<comment> \<open>U+23F3\<close>
  "hourglass = [CHR 0xE2, CHR 0x8F, CHR 0xB3]"

definition check_mark :: string where
  \<comment> \<open>U+2705\<close>
  "check_mark = [CHR 0xE2, CHR 0x9C, CHR 0x85]"

definition robot_face :: string where
  \<comment> \<open>U+1F916\<close>
  "robot_face = [CHR 0xF0, CHR 0x9F, CHR 0xA4, CHR 0x96]"

record AIConfig =
  cfg_api_key :: string
  cfg_model_name :: string
  cfg_api_base :: string
  cfg_model :: string

definition AI_MODELS :: "string \<rightharpoonup> string \<times> string" where
  \<comment> \<open>provider name to \<open>(api_base, model)\<close>\<close>
  "AI_MODELS = [''DeepSeek'' \<mapsto> (''https://api.deepseek.com/v1'', ''deepseek-chat'')]"

fun dict_set :: "'k \<Rightarrow> 'v \<Rightarrow> ('k \<times> 'v) list \<Rightarrow> ('k \<times> 'v) list" where
  \<comment> \<open>\<^verbatim>\<open>d[k] = v\<close> on a dictionary kept as the list of its items in insertion order\<close>
  "dict_set k v [] = [(k, v)]"
| "dict_set k v (p # ps) = (if fst p = k then (k, v) # ps else p # dict_set k v ps)"

record ui_update =
  status_box :: string
  plot_out :: "figure option"
  df_out :: "dataframe option"
  download_btn :: "bool \<times> string option"
  zip_state :: "string option"
  view_controls :: bool
  full_data_state :: "dataframe option"
  ai_out :: string

definition no_key_text :: string where
  "no_key_text =
     cross_mark @ '' No API key found. Please provide one or set the environment variable.''"

definition resolve_summary ::
  "(string \<rightharpoonup> string) \<Rightarrow> (string \<times> string \<Rightarrow> (cell \<times> cell) list \<Rightarrow> string) \<Rightarrow>
   (AIConfig \<Rightarrow> prompt option \<Rightarrow> string) \<Rightarrow> dataframe \<Rightarrow> string \<Rightarrow> string \<Rightarrow> string \<Rightarrow>
   error + string" where
  \<comment> \<open>lines 268 to 274, the body of \<^verbatim>\<open>if enable_ai\<close> after its yield: the value of
      \<^verbatim>\<open>ai_summary\<close>, or the \<^verbatim>\<open>KeyError\<close> of \<^verbatim>\<open>AI_MODELS[ai_model]\<close>\<close>
  "resolve_summary env to_string call_ai_api df model_name ai_model user_api_key =
     (case get_api_key env ai_model user_api_key of
        None \<Rightarrow> Inr no_key_text
      | Some api_key \<Rightarrow>
          if api_key = [] then Inr no_key_text
          else
            (case AI_MODELS ai_model of
               None \<Rightarrow> Inl KeyError
             | Some (api_base, model) \<Rightarrow>
                 Inr (call_ai_api
                        \<lparr> cfg_api_key = api_key, cfg_model_name = ai_model,
                          cfg_api_base = api_base, cfg_model = model \<rparr>
                        (generate_mutation_ai_prompt to_string df model_name))))"

definition handle_prediction_with_ai ::
  "(string \<rightharpoonup> string) \<Rightarrow> (string \<Rightarrow> string \<Rightarrow> string \<Rightarrow> string \<times> dataframe) \<Rightarrow>
   (string \<times> string \<Rightarrow> (cell \<times> cell) list \<Rightarrow> string) \<Rightarrow>
   (AIConfig \<Rightarrow> prompt option \<Rightarrow> string) \<Rightarrow> nat \<Rightarrow>
   string \<Rightarrow> string option \<Rightarrow> string option \<Rightarrow> bool \<Rightarrow> string \<Rightarrow> string \<Rightarrow>
   ui_update list \<times> (error + (string \<times> string) list option)" where
  \<comment> \<open>\<open>model_name\<close> and \<open>file_obj\<close> may be \<^verbatim>\<open>None\<close>; \<open>file_obj\<close> is given by its
      \<^verbatim>\<open>name\<close>; \<open>now\<close> is \<^verbatim>\<open>int(time.time())\<close>\<close>
  "handle_prediction_with_ai env run_zero_shot_prediction to_string call_ai_api now
       model_type model_name file_obj enable_ai ai_model user_api_key =
     (if model_name = None \<or> model_name = Some [] \<or> file_obj = None \<or> file_obj = Some [] then
        ([\<lparr> status_box = cross_mark @ '' Error: Model and file are required.'',
            plot_out = None, df_out = None, download_btn = (False, None), zip_state = None,
            view_controls = False, full_data_state = None,
            ai_out = ''Please select a model and upload a file.'' \<rparr>], Inr None)
      else
        (let running =
               \<lparr> status_box = hourglass @ '' Running '' @ model_type @ '' prediction...'',
                 plot_out = None, df_out = None, download_btn = (False, None), zip_state = None,
                 view_controls = False, full_data_state = None,
                 ai_out = ''Prediction in progress...'' \<rparr>;
             (status, df) = run_zero_shot_prediction model_type (the model_name) (the file_obj)
         in if empty_df df then
              ([running,
                \<lparr> status_box = status, plot_out = Some (titled_figure ''No results generated''),
                  df_out = Some \<lparr> columns = [], rows = [] \<rparr>, download_btn = (False, None),
                  zip_state = None, view_controls = False, full_data_state = None,
                  ai_out = ''No results to analyze.'' \<rparr>], Inr None)
            else
              (case get_total_residues_count df of
                 Inl e \<Rightarrow> ([running], Inl e)
               | Inr total_residues \<Rightarrow>
                  (case prepare_plotly_heatmap_data df (Some 40) of
                     Inl e \<Rightarrow> ([running], Inl e)
                   | Inr None \<Rightarrow>
                       ([running,
                         \<lparr> status_box = status,
                           plot_out = Some (titled_figure ''Score column not found''),
                           df_out = Some df, download_btn = (False, None), zip_state = None,
                           view_controls = False, full_data_state = Some df,
                           ai_out = ''Score column not found.'' \<rparr>], Inr None)
                   | Inr (Some data) \<Rightarrow>
                      (let summary_fig = generate_plotly_heatmap (Some data) True total_residues;
                           progress =
                             (if enable_ai then
                                [\<lparr> status_box = check_mark @ '' Prediction complete. '' @ robot_face
                                                  @ '' Generating AI summary...'',
                                   plot_out = Some summary_fig, df_out = Some df,
                                   download_btn = (False, None), zip_state = None,
                                   view_controls = (total_residues > 40),
                                   full_data_state = Some df,
                                   ai_out = robot_face @ '' AI is analyzing the results...'' \<rparr>]
                              else [])
                       in case (if enable_ai
                                then resolve_summary env to_string call_ai_api df
                                       (the model_name) ai_model user_api_key
                                else Inr ''AI analysis was not enabled.'') of
                            Inl e \<Rightarrow> (running # progress, Inl e)
                          | Inr ai_summary \<Rightarrow>
                             (case prepare_plotly_heatmap_data df None of
                                Inl e \<Rightarrow> (running # progress, Inl e)
                              | Inr full_data_tuple \<Rightarrow>
                                 (let run_timestamp = str_nat now;
                                      csv_path = ''temp_outputs/temp_'' @ model_type @ ''_results_''
                                                   @ run_timestamp @ ''.csv'';
                                      heatmap_path = ''temp_outputs/temp_'' @ model_type @ ''_heatmap_''
                                                   @ run_timestamp @ ''.html'';
                                      files_to_zip =
                                        dict_set heatmap_path ''prediction_heatmap.html''
                                          (dict_set csv_path ''prediction_results.csv'' []);
                                      files_to_zip =
                                        (if \<not> startswith ai_summary cross_mark
                                            \<and> \<not> startswith ai_summary ''AI analysis was not enabled''
                                         then dict_set
                                                (''temp_outputs/temp_ai_report_'' @ run_timestamp @ ''.md'')
                                                ''AI_Analysis_Report.md'' files_to_zip
                                         else files_to_zip);
                                      zip_path = ''temp_outputs/prediction_'' @ model_type @ ''_results_''
                                                   @ run_timestamp @ ''.zip'';
                                      final_status =
                                        (if \<not> enable_ai then status
                                         else check_mark @ '' Prediction and AI analysis complete!'')
                                  in (running # progress @
                                      [\<lparr> status_box = final_status, plot_out = Some summary_fig,
                                         df_out = Some df, download_btn = (True, Some zip_path),
                                         zip_state = Some zip_path,
                                         view_controls = (total_residues > 40),
                                         full_data_state = Some df, ai_out = ai_summary \<rparr>],
                                      Inr (Some files_to_zip)))))))))"

subsection \<open>Example inputs\<close>

definition scenario_a :: "(string \<times> rat \<times> nat) list" where
  \<comment> \<open>three valid rows with the scores 0.9, 0.1 and 0.9\<close>
  "scenario_a = [(''M1A'', 9 / 10, 1), (''M1C'', 1 / 10, 1), (''A2K'', 9 / 10, 2)]"

definition ten_rows :: "(string \<times> rat \<times> nat) list" where
  \<comment> \<open>ten valid rows at one position with the scores 10 down to 1\<close>
  "ten_rows = map (\<lambda>(a, k). ([CHR ''W'', CHR ''7'', a], of_nat k, 7))
                (zip ''ACDEFGHIKL'' (rev [1 ..< 11]))"

definition count_rows :: "string \<times> string \<Rightarrow> (cell \<times> cell) list \<Rightarrow> string" where
  \<comment> \<open>a stand-in renderer: the number of rows it was given\<close>
  "count_rows names rs = str_nat (length rs)"

definition hundred_rows :: dataframe where
  "hundred_rows =
     \<lparr> columns = [''mutant'', ''score''],
       rows = map (\<lambda>k. [Str ''A1C'', Num (of_nat k)]) (rev [0 ..< 100]) \<rparr>"

definition no_score_name :: dataframe where
  \<comment> \<open>a table whose second column is not named after the score\<close>
  "no_score_name =
     \<lparr> columns = [''mutant'', ''value''], rows = [[Str ''A1C'', Num (1 / 2)]] \<rparr>"

definition scenario_a_table :: dataframe where
  \<comment> \<open>the three rows of \<open>scenario_a\<close> as a results table\<close>
  "scenario_a_table =
     \<lparr> columns = [''mutant'', ''score''],
       rows = [[Str ''M1A'', Num (9 / 10)], [Str ''M1C'', Num (1 / 10)],
               [Str ''A2K'', Num (9 / 10)]] \<rparr>"

definition no_mutant_name :: dataframe where
  \<comment> \<open>a table with a score column and no column \<open>mutant\<close>\<close>
  "no_mutant_name =
     \<lparr> columns = [''mutation'', ''score''], rows = [[Str ''A1C'', Num 1]] \<rparr>"

definition noncanonical_table :: dataframe where
  "noncanonical_table = \<lparr> columns = [''mutant'', ''score''], rows = [[Str ''A1X'', Num (1 / 2)]] \<rparr>"

definition two_position_table :: dataframe where
  "two_position_table =
     \<lparr> columns = [''mutant'', ''score''],
       rows = [[Str ''A1C'', Num (1 / 2)], [Str ''G2D'', Num (1 / 4)]] \<rparr>"

definition two_wild_types :: dataframe where
  \<comment> \<open>two valid rows at position 5 that disagree on the wild type\<close>
  "two_wild_types =
     \<lparr> columns = [''mutant'', ''score''],
       rows = [[Str ''A5C'', Num (1 / 2)], [Str ''G5D'', Num (1 / 4)]] \<rparr>"

definition forty_one_positions :: dataframe where
  \<comment> \<open>one valid row \<open>AkC\<close> at each position \<open>k\<close> from 1 to 41, all with the score 0.5\<close>
  "forty_one_positions =
     \<lparr> columns = [''mutant'', ''score''],
       rows = map (\<lambda>k. [Str (CHR ''A'' # str_nat k @ ''C''), Num (1 / 2)]) [1 ..< 42] \<rparr>"

definition fixed_scorer :: "dataframe \<Rightarrow> string \<Rightarrow> string \<Rightarrow> string \<Rightarrow> string \<times> dataframe" where
  \<comment> \<open>a stand-in scorer that succeeds with a given table\<close>
  "fixed_scorer df model_type model_name file_path = (''Prediction completed successfully!'', df)"

definition fixed_reply :: "string \<Rightarrow> AIConfig \<Rightarrow> prompt option \<Rightarrow> string" where
  \<comment> \<open>a stand-in chat completion that answers with a given text\<close>
  "fixed_reply text config p = text"

section \<open>Properties\<close>

subsection \<open>Percentile bins\<close>

lemma inverted_bin_range:
  assumes "0 < rk" and "0 < n"
  shows "1 \<le> inverted_bin rk n \<and> inverted_bin rk n \<le> 10"
proof -
  have "(0::rat) < of_nat rk / (of_nat n / 10)"
    using assms by simp
  then have "0 < \<lceil>(of_nat rk :: rat) / (of_nat n / 10)\<rceil>"
    by (simp add: less_ceiling_iff)
  then show ?thesis
    by (simp add: inverted_bin_def)
qed

lemma inverted_bin_first:
  assumes "0 < n"
  shows "inverted_bin 1 n = 10 \<longleftrightarrow> 10 \<le> n"
proof -
  define c where "c = \<lceil>(of_nat 1 :: rat) / (of_nat n / 10)\<rceil>"
  have pos: "0 < c"
    using assms by (simp add: c_def less_ceiling_iff)
  have "c \<le> 1 \<longleftrightarrow> 10 \<le> n"
    using assms by (simp add: c_def ceiling_le_iff pos_divide_le_eq)
  moreover have "inverted_bin 1 n = 11 - min c 10"
    unfolding inverted_bin_def c_def ..
  ultimately show ?thesis
    using pos by linarith
qed

lemma in_annotate:
  "r \<in> set (annotate vs) \<longleftrightarrow>
     (\<exists>m s p. (m, s, p) \<in> set vs \<and>
        r = \<lparr> mutant = m, score = s, rank = rank_min (map (\<lambda>(m, s, p). s) vs) s,
              inverted_rank_bin = inverted_bin (rank_min (map (\<lambda>(m, s, p). s) vs) s) (length vs),
              position = p \<rparr>)"
  by (auto simp: annotate_def Let_def image_iff) force+

lemma rank_min_pos: "0 < rank_min ss s"
  by (simp add: rank_min_def)

text \<open>
  Claim C4. Whenever there is at least one valid row, the bin assigned to each valid
  row is an integer between 1 and 10; the number of valid rows may be below 10, where
  the bin width is below 1.
\<close>

theorem bins_in_range:
  assumes "vs \<noteq> []" and "r \<in> set (annotate vs)"
  shows "1 \<le> inverted_rank_bin r \<and> inverted_rank_bin r \<le> 10"
  using assms inverted_bin_range [OF rank_min_pos, of "length vs"]
  by (auto simp: in_annotate)

theorem bins_in_range_witness:
  "scenario_a \<noteq> [] \<and> hd (annotate scenario_a) \<in> set (annotate scenario_a)
   \<and> 1 \<le> inverted_rank_bin (hd (annotate scenario_a))
   \<and> inverted_rank_bin (hd (annotate scenario_a)) \<le> 10
   \<and> length scenario_a < 10"
proof -
  have ne: "scenario_a \<noteq> []"
    by (simp add: scenario_a_def)
  have mem: "hd (annotate scenario_a) \<in> set (annotate scenario_a)"
    by code_simp
  have "length scenario_a < 10"
    by (simp add: scenario_a_def)
  with ne mem bins_in_range [OF ne mem] show ?thesis
    by simp
qed

text \<open>
  Claim C1, as stated: a row of rank 1 always gets bin 10. In the table of three rows
  with the scores 0.9, 0.1 and 0.9 the ranks are 1, 3, 1 and the bins are 7, 1, 7:
  the bin width is 0.3 and \<open>ceil(1 / 0.3) = 4\<close>.
\<close>

theorem first_rank_bin_counterexample:
  "map rank (annotate scenario_a) = [1, 3, 1]
   \<and> map inverted_rank_bin (annotate scenario_a) = [7, 1, 7]"
  by code_simp

text \<open>
  Claim C1, amended. With at least one valid row, a row of rank 1 gets bin 10 exactly
  when there are at least 10 valid rows.
\<close>

theorem first_rank_bin:
  assumes "vs \<noteq> []" and "r \<in> set (annotate vs)" and "rank r = 1"
  shows "inverted_rank_bin r = 10 \<longleftrightarrow> 10 \<le> length vs"
proof -
  from assms(2) obtain m s p where
    r: "r = \<lparr> mutant = m, score = s, rank = rank_min (map (\<lambda>(m, s, p). s) vs) s,
              inverted_rank_bin = inverted_bin (rank_min (map (\<lambda>(m, s, p). s) vs) s) (length vs),
              position = p \<rparr>"
    by (auto simp: in_annotate)
  with assms(3) have "inverted_rank_bin r = inverted_bin 1 (length vs)"
    by simp
  moreover have "0 < length vs"
    using assms(1) by simp
  ultimately show ?thesis
    using inverted_bin_first [of "length vs"] by simp
qed

theorem first_rank_bin_witness:
  "ten_rows \<noteq> [] \<and> hd (annotate ten_rows) \<in> set (annotate ten_rows)
   \<and> rank (hd (annotate ten_rows)) = 1
   \<and> inverted_rank_bin (hd (annotate ten_rows)) = 10 \<and> 10 \<le> length ten_rows"
proof -
  have ne: "ten_rows \<noteq> []"
    by code_simp
  have mem: "hd (annotate ten_rows) \<in> set (annotate ten_rows)"
    by code_simp
  have first: "rank (hd (annotate ten_rows)) = 1"
    by code_simp
  have len: "10 \<le> length ten_rows"
    by code_simp
  from first_rank_bin [OF ne mem first] len ne mem first show ?thesis
    by simp
qed

subsection \<open>Ranks\<close>

lemma takeWhile_descending:
  "sorted_wrt (\<lambda>a b. b \<le> a) ys \<Longrightarrow> s \<in> set ys \<Longrightarrow>
     takeWhile (\<lambda>t. t \<noteq> s) ys = filter (\<lambda>t. s < t) (ys :: rat list)"
proof (induction ys)
  case Nil
  then show ?case by simp
next
  case (Cons y ys)
  show ?case
  proof (cases "y = s")
    case True
    with Cons.prems have "\<forall>t \<in> set ys. \<not> s < t"
      by auto
    then have "filter (\<lambda>t. s < t) ys = []"
      by (simp add: filter_empty_conv)
    with True show ?thesis by simp
  next
    case False
    with Cons.prems have "s \<in> set ys" and "s < y"
      by auto
    with Cons show ?thesis by simp
  qed
qed

lemma descending_sort: "sorted_wrt (\<lambda>a b. b \<le> a) (rev (sort (ss :: rat list)))"
  by (simp add: sorted_wrt_rev)

lemma length_filter_mset: "mset xs = mset ys \<Longrightarrow> length (filter P xs) = length (filter P ys)"
  by (metis mset_filter size_mset)

lemma rank_min_count:
  assumes "s \<in> set ss"
  shows "rank_min ss s = Suc (length (filter (\<lambda>t. s < t) ss))"
proof -
  have "takeWhile (\<lambda>t. t \<noteq> s) (rev (sort ss)) = filter (\<lambda>t. s < t) (rev (sort ss))"
    using assms by (intro takeWhile_descending descending_sort) simp
  moreover have "length (filter (\<lambda>t. s < t) (rev (sort ss))) = length (filter (\<lambda>t. s < t) ss)"
    by (rule length_filter_mset) simp
  ultimately show ?thesis
    by (simp add: rank_min_def)
qed

lemma length_filter_mono:
  "(\<And>x. x \<in> set xs \<Longrightarrow> P x \<Longrightarrow> Q x) \<Longrightarrow> length (filter P xs) \<le> length (filter Q xs)"
  by (induction xs) auto

lemma rank_min_mono:
  assumes "s \<in> set ss" and "t \<in> set ss" and "t \<le> s"
  shows "rank_min ss s \<le> rank_min ss t"
  using assms by (auto simp: rank_min_count intro!: length_filter_mono)

lemma length_takeWhile_lt:
  "x \<in> set xs \<Longrightarrow> \<not> P x \<Longrightarrow> length (takeWhile P xs) < length xs"
  by (induction xs) auto

lemma rank_min_place:
  assumes "s \<in> set ss"
  shows "rev (sort ss) ! (rank_min ss s - 1) = s"
    and "i < rank_min ss s - 1 \<Longrightarrow> rev (sort ss) ! i \<noteq> s"
proof -
  let ?ys = "rev (sort ss)"
  let ?n = "length (takeWhile (\<lambda>t. t \<noteq> s) ?ys)"
  have "s \<in> set ?ys" using assms by simp
  then have "?n < length ?ys"
    by (rule length_takeWhile_lt) simp
  from nth_length_takeWhile [OF this] show "?ys ! (rank_min ss s - 1) = s"
    by (simp add: rank_min_def)
  assume "i < rank_min ss s - 1"
  then have i: "i < ?n" by (simp add: rank_min_def)
  then have "takeWhile (\<lambda>t. t \<noteq> s) ?ys ! i \<in> set (takeWhile (\<lambda>t. t \<noteq> s) ?ys)"
    by (rule nth_mem)
  then have "takeWhile (\<lambda>t. t \<noteq> s) ?ys ! i \<noteq> s"
    by (auto dest: set_takeWhileD)
  with i show "?ys ! i \<noteq> s"
    by (simp add: takeWhile_nth)
qed

lemma scores_annotate: "map score (annotate vs) = map (\<lambda>(m, s, p). s) vs"
  by (simp add: annotate_def Let_def case_prod_beta)

lemma rank_annotate:
  "r \<in> set (annotate vs) \<Longrightarrow> rank r = rank_min (map score (annotate vs)) (score r)"
  by (auto simp: in_annotate scores_annotate)

lemma rank_annotate_input:
  "map rank (annotate vs) =
     map (\<lambda>(m, s, p). Suc (length (filter (\<lambda>(m', t, p'). s < t) vs))) vs"
proof -
  have "rank_min (map (\<lambda>(m, s, p). s) vs) s = Suc (length (filter (\<lambda>(m', t, p'). s < t) vs))"
    if "(m, s, p) \<in> set vs" for m s p
  proof -
    from that have "s \<in> set (map (\<lambda>(m, s, p). s) vs)"
      by force
    from rank_min_count [OF this] show ?thesis
      by (simp add: filter_map comp_def split_def)
  qed
  then show ?thesis
    by (auto simp: annotate_def Let_def)
qed

lemma mutant_annotate: "map mutant (annotate vs) = map fst vs"
  by (simp add: annotate_def Let_def case_prod_beta)

lemma position_annotate: "map position (annotate vs) = map (\<lambda>(m, s, p). p) vs"
  by (simp add: annotate_def Let_def case_prod_beta)

text \<open>
  Claim C7. The annotated rows keep the codes and the scores of the valid rows, in
  their order, and the rank of a row is one more than the number of valid rows with a
  strictly higher score. Hence a row with a score at most that of another row has a
  rank at least as high in number, rows of equal score have equal rank, and the rank
  of a row is the first (lowest) place of its score when the scores of the valid rows
  are listed from the highest down: the lowest place of its tie group.
\<close>

theorem rank_competition:
  "map mutant (annotate vs) = map fst vs
   \<and> map score (annotate vs) = map (\<lambda>(m, s, p). s) vs
   \<and> map rank (annotate vs) =
       map (\<lambda>(m, s, p). Suc (length (filter (\<lambda>(m', t, p'). s < t) vs))) vs
   \<and> (\<forall>r1 \<in> set (annotate vs). \<forall>r2 \<in> set (annotate vs).
        (score r2 \<le> score r1 \<longrightarrow> rank r1 \<le> rank r2)
        \<and> (score r1 = score r2 \<longrightarrow> rank r1 = rank r2))
   \<and> (\<forall>r \<in> set (annotate vs).
        rev (sort (map (\<lambda>(m, s, p). s) vs)) ! (rank r - 1) = score r
        \<and> (\<forall>i < rank r - 1. rev (sort (map (\<lambda>(m, s, p). s) vs)) ! i \<noteq> score r))"
proof (intro conjI ballI)
  let ?ss = "map (\<lambda>(m, s, p). s) vs"
  show "map mutant (annotate vs) = map fst vs"
    by (rule mutant_annotate)
  show "map score (annotate vs) = ?ss"
    by (rule scores_annotate)
  show "map rank (annotate vs) =
       map (\<lambda>(m, s, p). Suc (length (filter (\<lambda>(m', t, p'). s < t) vs))) vs"
    by (rule rank_annotate_input)
  have mem: "score r \<in> set ?ss" if "r \<in> set (annotate vs)" for r
    using that scores_annotate [of vs] by (metis image_eqI list.set_map)
  have rk: "rank r = rank_min ?ss (score r)" if "r \<in> set (annotate vs)" for r
    using rank_annotate [OF that] by (simp add: scores_annotate)
  {
    fix r1 r2 assume r1: "r1 \<in> set (annotate vs)" and r2: "r2 \<in> set (annotate vs)"
    show "score r2 \<le> score r1 \<longrightarrow> rank r1 \<le> rank r2"
      using rank_min_mono [OF mem [OF r1] mem [OF r2]] rk [OF r1] rk [OF r2] by simp
    show "score r1 = score r2 \<longrightarrow> rank r1 = rank r2"
      using rk [OF r1] rk [OF r2] by simp
  }
  fix r assume r: "r \<in> set (annotate vs)"
  show "rev (sort ?ss) ! (rank r - 1) = score r"
    using rank_min_place(1) [OF mem [OF r]] rk [OF r] by simp
  show "\<forall>i < rank r - 1. rev (sort ?ss) ! i \<noteq> score r"
    using rank_min_place(2) [OF mem [OF r]] rk [OF r] by simp
qed

theorem rank_competition_witness:
  "scenario_a = [(''M1A'', 9 / 10, 1), (''M1C'', 1 / 10, 1), (''A2K'', 9 / 10, 2)]
   \<and> map score (annotate scenario_a) = [9 / 10, 1 / 10, 9 / 10]
   \<and> map rank (annotate scenario_a) = [1, 3, 1]
   \<and> annotate scenario_a ! 0 \<in> set (annotate scenario_a)
   \<and> annotate scenario_a ! 1 \<in> set (annotate scenario_a)
   \<and> annotate scenario_a ! 2 \<in> set (annotate scenario_a)
   \<and> score (annotate scenario_a ! 1) \<le> score (annotate scenario_a ! 0)
   \<and> rank (annotate scenario_a ! 0) \<le> rank (annotate scenario_a ! 1)
   \<and> score (annotate scenario_a ! 0) = score (annotate scenario_a ! 2)
   \<and> rank (annotate scenario_a ! 0) = rank (annotate scenario_a ! 2)
   \<and> rev (sort (map (\<lambda>(m, s, p). s) scenario_a)) ! (rank (annotate scenario_a ! 2) - 1)
       = score (annotate scenario_a ! 2)"
proof -
  have m0: "annotate scenario_a ! 0 \<in> set (annotate scenario_a)"
    by code_simp
  have m1: "annotate scenario_a ! 1 \<in> set (annotate scenario_a)"
    by code_simp
  have m2: "annotate scenario_a ! 2 \<in> set (annotate scenario_a)"
    by code_simp
  have le: "score (annotate scenario_a ! 1) \<le> score (annotate scenario_a ! 0)"
    by code_simp
  have eq: "score (annotate scenario_a ! 0) = score (annotate scenario_a ! 2)"
    by code_simp
  have sc: "map (\<lambda>(m, s, p). s) scenario_a = [9 / 10, 1 / 10, 9 / 10]"
    by (simp add: scenario_a_def)
  have rk: "map (\<lambda>(m, s, p). Suc (length (filter (\<lambda>(m', t, p'). s < t) scenario_a))) scenario_a
      = [1, 3, 1]"
    by (simp add: scenario_a_def)
  note T = rank_competition [of scenario_a]
  from T have a: "map score (annotate scenario_a) = [9 / 10, 1 / 10, 9 / 10]"
    unfolding sc by blast
  from T have b: "map rank (annotate scenario_a) = [1, 3, 1]"
    unfolding rk by blast
  from T m0 m1 le have c: "rank (annotate scenario_a ! 0) \<le> rank (annotate scenario_a ! 1)"
    by blast
  from T m0 m2 eq have d: "rank (annotate scenario_a ! 0) = rank (annotate scenario_a ! 2)"
    by blast
  from T m2 have e: "rev (sort (map (\<lambda>(m, s, p). s) scenario_a)) ! (rank (annotate scenario_a ! 2) - 1)
       = score (annotate scenario_a ! 2)"
    by blast
  have f: "scenario_a = [(''M1A'', 9 / 10, 1), (''M1C'', 1 / 10, 1), (''A2K'', 9 / 10, 2)]"
    by (rule scenario_a_def)
  show ?thesis
    by (intro conjI) (rule f a b m0 m1 m2 le c eq d e)+
qed

subsection \<open>Report prompt builder\<close>

lemma find_score_col_None:
  "find_score_col cols = None \<longleftrightarrow> (\<forall>c \<in> set cols. \<not> contains (lower c) ''score'')"
  by (auto simp: find_score_col_def find_None_iff)

lemma find_score_col_Some:
  "find_score_col cols = Some c \<longleftrightarrow>
     (\<exists>i < length cols. cols ! i = c \<and> contains (lower c) ''score''
        \<and> (\<forall>j < i. \<not> contains (lower (cols ! j)) ''score''))"
  by (auto simp: find_score_col_def find_Some_iff)

lemma prompt_None:
  "generate_mutation_ai_prompt ts df name = None \<longleftrightarrow>
     columns df = [] \<or> (find_score_col (columns df) = None \<and> length (columns df) < 2)"
  by (auto simp: generate_mutation_ai_prompt_def prompt_mutant_col_def prompt_score_col_def
        Let_def split: option.splits if_splits)

lemma prompt_Some:
  assumes "generate_mutation_ai_prompt ts df name = Some p"
  shows "\<exists>mc. prompt_mutant_col (columns df) = Some mc
      \<and> prompt_score_col (columns df) = Some (score_col_in p)
      \<and> top_mutations_str p =
           ts (mc, score_col_in p)
             (select2 df mc (score_col_in p) (head_df (top_count (length (rows df))) (rows df)))
      \<and> lowest_mutations_str p =
           (if lowest_count (length (rows df)) > 0
               \<and> tail_df (lowest_count (length (rows df))) (rows df) \<noteq> []
            then ts (mc, score_col_in p)
                   (select2 df mc (score_col_in p)
                      (tail_df (lowest_count (length (rows df))) (rows df)))
            else ''N/A'')"
  using assms
  by (auto simp: generate_mutation_ai_prompt_def Let_def split: option.splits if_splits)

text \<open>
  Claim C8. When the prompt builder finds its two columns: a table of fewer than 5 rows
  gives all its rows as the top slice and the marker \<open>N/A\<close> in place of the bottom
  slice; a table of 5 rows or more gives a top slice of the first \<open>k\<close> rows and a
  bottom slice of the last \<open>k\<close> rows, \<open>k = max 1 (n div 20)\<close>, each of exactly
  \<open>k\<close> rows; for 100 rows \<open>k = 5\<close>.
\<close>

theorem prompt_slices:
  assumes "generate_mutation_ai_prompt ts df name = Some p"
  shows "\<exists>mc. prompt_mutant_col (columns df) = Some mc \<and>
      (length (rows df) < 5 \<longrightarrow>
         top_mutations_str p = ts (mc, score_col_in p) (select2 df mc (score_col_in p) (rows df))
         \<and> lowest_mutations_str p = ''N/A'')
    \<and> (5 \<le> length (rows df) \<longrightarrow>
         top_mutations_str p =
           ts (mc, score_col_in p)
             (select2 df mc (score_col_in p) (take (max 1 (length (rows df) div 20)) (rows df)))
         \<and> lowest_mutations_str p =
           ts (mc, score_col_in p)
             (select2 df mc (score_col_in p)
                (drop (length (rows df) - max 1 (length (rows df) div 20)) (rows df)))
         \<and> length (take (max 1 (length (rows df) div 20)) (rows df)) = max 1 (length (rows df) div 20)
         \<and> length (drop (length (rows df) - max 1 (length (rows df) div 20)) (rows df))
             = max 1 (length (rows df) div 20))
    \<and> (length (rows df) = 100 \<longrightarrow> max 1 (length (rows df) div 20) = 5)"
proof -
  from prompt_Some [OF assms] obtain mc where
    mc: "prompt_mutant_col (columns df) = Some mc"
    and top: "top_mutations_str p =
           ts (mc, score_col_in p)
             (select2 df mc (score_col_in p) (head_df (top_count (length (rows df))) (rows df)))"
    and low: "lowest_mutations_str p =
           (if lowest_count (length (rows df)) > 0
               \<and> tail_df (lowest_count (length (rows df))) (rows df) \<noteq> []
            then ts (mc, score_col_in p)
                   (select2 df mc (score_col_in p)
                      (tail_df (lowest_count (length (rows df))) (rows df)))
            else ''N/A'')"
    by blast
  have small: "length (rows df) < 5 \<Longrightarrow> head_df (top_count (length (rows df))) (rows df) = rows df"
    by (simp add: head_df_def top_count_def)
  have small_low: "length (rows df) < 5 \<Longrightarrow> lowest_count (length (rows df)) = 0"
    by (simp add: lowest_count_def)
  have k: "5 \<le> length (rows df) \<Longrightarrow> max 1 (length (rows df) div 20) \<le> length (rows df)"
    by (simp add: max_def)
  have big_low: "5 \<le> length (rows df) \<Longrightarrow>
      tail_df (lowest_count (length (rows df))) (rows df) \<noteq> []"
    using k by (auto simp: tail_df_def lowest_count_def max_def)
  show ?thesis
    using mc top low small small_low k big_low
    by (intro exI [of _ mc]) (auto simp: head_df_def tail_df_def top_count_def lowest_count_def)
qed

theorem prompt_slices_witness:
  "generate_mutation_ai_prompt count_rows hundred_rows ''ESM2-650M'' =
     Some \<lparr> model_name_in = ''ESM2-650M'', score_col_in = ''score'',
            top_mutations_str = ''5'', lowest_mutations_str = ''5'' \<rparr>
   \<and> length (rows hundred_rows) = 100
   \<and> length (take (max 1 (length (rows hundred_rows) div 20)) (rows hundred_rows)) = 5
   \<and> length (drop (length (rows hundred_rows) - max 1 (length (rows hundred_rows) div 20))
               (rows hundred_rows)) = 5"
proof -
  have g: "generate_mutation_ai_prompt count_rows hundred_rows ''ESM2-650M'' =
     Some \<lparr> model_name_in = ''ESM2-650M'', score_col_in = ''score'',
            top_mutations_str = ''5'', lowest_mutations_str = ''5'' \<rparr>"
    by code_simp
  have n: "length (rows hundred_rows) = 100"
    by (simp add: hundred_rows_def)
  from prompt_slices [OF g] n g show ?thesis
    by auto
qed

subsection \<open>Column resolution\<close>

lemma rank_table_None:
  "rank_table df = Inr None \<longleftrightarrow> find_score_col (columns df) = None"
  by (auto simp: rank_table_def Let_def split: option.splits sum.splits)

lemma index_of_SomeD:
  "index_of xs a = Some i \<Longrightarrow> i < length xs \<and> xs ! i = a"
  by (induction xs arbitrary: i) (auto split: if_splits)

lemma index_of_None: "index_of xs a = None \<longleftrightarrow> a \<notin> set xs"
  by (induction xs) auto

lemma rank_table_Some:
  assumes "rank_table df = Inr (Some (sc, rs))"
  shows "find_score_col (columns df) = Some sc \<and> ''mutant'' \<in> set (columns df)"
proof -
  from assms have "find_score_col (columns df) = Some sc"
    by (auto simp: rank_table_def Let_def split: option.splits sum.splits if_splits)
  moreover from assms have "index_of (columns df) ''mutant'' \<noteq> None"
    by (auto simp: rank_table_def Let_def split: option.splits sum.splits if_splits)
  ultimately show ?thesis
    by (simp add: index_of_None)
qed

lemma score_col_build [simp]: "score_col (build_matrices sc sp rs) = sc"
  by (simp add: build_matrices_def Let_def split: prod.splits)

lemma prepare_None:
  "prepare_plotly_heatmap_data df k = Inr None \<longleftrightarrow> find_score_col (columns df) = None"
  by (auto simp: prepare_plotly_heatmap_data_def rank_table_None [symmetric]
        split: sum.splits option.splits)

lemma prepare_Some:
  assumes "prepare_plotly_heatmap_data df k = Inr (Some h)"
  shows "\<exists>sc rs. rank_table df = Inr (Some (sc, rs)) \<and> score_col h = sc
     \<and> (rs \<noteq> [] \<longrightarrow> h = build_matrices sc (retained_positions k rs) (retained_rows k rs))"
  using assms
  by (auto simp: prepare_plotly_heatmap_data_def split: sum.splits option.splits if_splits)

lemma map_sum_option_SomeD:
  "map_sum id (map_option f) x = Inr (Some v) \<Longrightarrow> \<exists>h. x = Inr (Some h) \<and> f h = v"
  by (cases x) auto

lemma scores_of_Inr: "scores_of cs = Inr ss \<Longrightarrow> map Num ss = cs"
proof -
  assume a: "scores_of cs = Inr ss"
  then have "\<forall>c \<in> set cs. \<exists>q. c = Num q"
    by (auto simp: scores_of_def split: if_splits cell.splits) (metis cell.exhaust)
  then have "map Num (map (\<lambda>c. case c of Num q \<Rightarrow> q | _ \<Rightarrow> 0) cs) = cs"
    by (induction cs) auto
  with a show ?thesis
    by (auto simp: scores_of_def split: if_splits)
qed

lemma collect_Inr: "collect xs = Inr ys \<Longrightarrow> xs = map Inr ys"
  by (induction xs arbitrary: ys) (auto split: sum.splits)

lemma collect_Inl: "collect xs = Inl e \<Longrightarrow> Inl e \<in> set xs"
  by (induction xs) (auto split: sum.splits)

lemma column_cell_index:
  "index_of (columns df) name = Some i \<Longrightarrow> column_cell df name r = cell_at r i"
  by (simp add: column_cell_def)

lemma annotate_zip:
  assumes "length ss = length ms" and "length ps = length ms"
  shows "map mutant (annotate (zip ms (zip ss ps))) = ms"
    and "map score (annotate (zip ms (zip ss ps))) = ss"
    and "map position (annotate (zip ms (zip ss ps))) = ps"
proof -
  have m: "map fst (zip ms (zip ss ps)) = ms"
    using assms by simp
  have "map (\<lambda>(m, s, p). s) (zip ms (zip ss ps)) = map fst (map snd (zip ms (zip ss ps)))"
    by (simp add: split_def)
  also have "\<dots> = ss"
    using assms by simp
  finally have s: "map (\<lambda>(m, s, p). s) (zip ms (zip ss ps)) = ss" .
  have "map (\<lambda>(m, s, p). p) (zip ms (zip ss ps)) = map snd (map snd (zip ms (zip ss ps)))"
    by (simp add: split_def)
  also have "\<dots> = ps"
    using assms by simp
  finally have p: "map (\<lambda>(m, s, p). p) (zip ms (zip ss ps)) = ps" .
  show "map mutant (annotate (zip ms (zip ss ps))) = ms"
    by (simp only: mutant_annotate m)
  show "map score (annotate (zip ms (zip ss ps))) = ss"
    by (simp only: scores_annotate s)
  show "map position (annotate (zip ms (zip ss ps))) = ps"
    by (simp only: position_annotate p)
qed

lemma rank_table_rows:
  assumes "rank_table df = Inr (Some (sc, rs))"
  defines "valid \<equiv> filter (\<lambda>r. is_valid_mutation (column_cell df ''mutant'' r)) (rows df)"
  shows "map mutant rs = map (\<lambda>r. str_of (column_cell df ''mutant'' r)) valid"
    and "map (\<lambda>r. Num (score r)) rs = map (column_cell df sc) valid"
    and "map (\<lambda>r. py_int (butlast (tl (mutant r)))) rs = map (\<lambda>r. Inr (position r)) rs"
    and "\<exists>vs. rs = annotate vs"
proof -
  from assms(1) obtain mi where mi: "index_of (columns df) ''mutant'' = Some mi"
    by (auto simp: rank_table_def split: option.splits)
  from assms(1) have sc: "find_score_col (columns df) = Some sc"
    by (auto simp: rank_table_def Let_def split: option.splits sum.splits if_splits)
  have v: "valid = filter (\<lambda>r. is_valid_mutation (cell_at r mi)) (rows df)"
    by (simp add: valid_def column_cell_index [OF mi])
  have all: "map mutant rs = map (\<lambda>r. str_of (column_cell df ''mutant'' r)) valid
    \<and> map (\<lambda>r. Num (score r)) rs = map (column_cell df sc) valid
    \<and> map (\<lambda>r. py_int (butlast (tl (mutant r)))) rs = map (\<lambda>r. Inr (position r)) rs
    \<and> (\<exists>vs. rs = annotate vs)"
  proof (cases "valid = []")
    case True
    with assms(1) mi sc v have "rs = []"
      by (simp add: rank_table_def)
    moreover have "annotate [] = []"
      by (simp add: annotate_def)
    ultimately show ?thesis
      using True by (intro conjI exI [of _ "[]"]) simp_all
  next
    case False
    let ?ms = "map (\<lambda>r. str_of (cell_at r mi)) valid"
    from assms(1) mi sc v False obtain ss ps where
      ss: "scores_of (map (column_cell df sc) valid) = Inr ss"
      and ps: "collect (map (\<lambda>m. py_int (butlast (tl m))) ?ms) = Inr ps"
      and rs: "rs = annotate (zip ?ms (zip ss ps))"
      by (auto simp: rank_table_def Let_def split: sum.splits)
    from scores_of_Inr [OF ss] have ss': "map Num ss = map (column_cell df sc) valid" .
    then have ls: "length ss = length ?ms"
      by (metis length_map)
    from collect_Inr [OF ps] have ps': "map (\<lambda>m. py_int (butlast (tl m))) ?ms = map Inr ps" .
    then have lp: "length ps = length ?ms"
      by (metis length_map)
    note z = annotate_zip [OF ls lp, folded rs]
    have "map (\<lambda>r. Num (score r)) rs = map Num (map score rs)"
      by simp
    also have "\<dots> = map (column_cell df sc) valid"
      by (simp only: z ss')
    finally have a: "map (\<lambda>r. Num (score r)) rs = map (column_cell df sc) valid" .
    have "map (\<lambda>r. py_int (butlast (tl (mutant r)))) rs
        = map (\<lambda>m. py_int (butlast (tl m))) (map mutant rs)"
      by simp
    also have "\<dots> = map Inr (map position rs)"
      by (simp only: z ps')
    finally have b: "map (\<lambda>r. py_int (butlast (tl (mutant r)))) rs = map (\<lambda>r. Inr (position r)) rs"
      by simp
    from z(1) have c: "map mutant rs = map (\<lambda>r. str_of (column_cell df ''mutant'' r)) valid"
      by (simp add: column_cell_index [OF mi])
    from a b c rs show ?thesis
      by blast
  qed
  from all show "map mutant rs = map (\<lambda>r. str_of (column_cell df ''mutant'' r)) valid"
    and "map (\<lambda>r. Num (score r)) rs = map (column_cell df sc) valid"
    and "map (\<lambda>r. py_int (butlast (tl (mutant r)))) rs = map (\<lambda>r. Inr (position r)) rs"
    and "\<exists>vs. rs = annotate vs"
    by blast+
qed

lemma rank_table_no_KeyError:
  "''mutant'' \<in> set (columns df) \<Longrightarrow> rank_table df \<noteq> Inl KeyError"
proof
  assume m: "''mutant'' \<in> set (columns df)" and k: "rank_table df = Inl KeyError"
  from m obtain mi where mi: "index_of (columns df) ''mutant'' = Some mi"
    by (cases "index_of (columns df) ''mutant''") (auto simp: index_of_None)
  from k obtain sc where sc: "find_score_col (columns df) = Some sc"
    by (cases "find_score_col (columns df)") (auto simp: rank_table_def)
  let ?valid = "filter (\<lambda>r. is_valid_mutation (cell_at r mi)) (rows df)"
  let ?ms = "map (\<lambda>r. str_of (cell_at r mi)) ?valid"
  from k mi sc have "scores_of (map (column_cell df sc) ?valid) = Inl KeyError
      \<or> collect (map (\<lambda>m. py_int (butlast (tl m))) ?ms) = Inl KeyError"
    by (auto simp: rank_table_def Let_def split: sum.splits if_splits)
  then show False
  proof
    assume "scores_of (map (column_cell df sc) ?valid) = Inl KeyError"
    then show False
      by (simp add: scores_of_def split: if_splits)
  next
    assume "collect (map (\<lambda>m. py_int (butlast (tl m))) ?ms) = Inl KeyError"
    from collect_Inl [OF this] obtain m where "py_int (butlast (tl m)) = Inl KeyError"
      by auto
    then show False
      by (simp add: py_int_def Let_def split: if_splits)
  qed
qed

lemma prepare_no_KeyError:
  "''mutant'' \<in> set (columns df) \<Longrightarrow> prepare_plotly_heatmap_data df k \<noteq> Inl KeyError"
  using rank_table_no_KeyError [of df]
  by (auto simp: prepare_plotly_heatmap_data_def split: sum.splits option.splits if_splits)

text \<open>
  Claim C2, as stated: both consumers fall back to the second column for the score and
  never raise. The heatmap builder has no such fallback: on a table with the columns
  \<open>mutant\<close> and \<open>value\<close> it returns the tuple of \<^verbatim>\<open>None\<close>, where the prompt builder
  takes \<open>value\<close> as the score column.
\<close>

theorem column_resolution_counterexample:
  "length (columns no_score_name) = 2
   \<and> prepare_plotly_heatmap_data no_score_name None = Inr None
   \<and> map_option score_col_in (generate_mutation_ai_prompt count_rows no_score_name ''ESM2-650M'')
       = Some ''value''"
  by code_simp

text \<open>
  On a table with a score column and no column \<open>mutant\<close> the heatmap builder raises
  \<^verbatim>\<open>KeyError\<close> at \<^verbatim>\<open>df['mutant']\<close>.
\<close>

lemma heatmap_without_mutant_column:
  "prepare_plotly_heatmap_data no_mutant_name None = Inl KeyError"
  by code_simp

text \<open>
  Claim C2, amended. The prompt builder returns no prompt exactly when the table has no
  column, or has fewer than two columns and none named after the score; otherwise its
  mutation column is \<open>mutant\<close> if there is one and the first column if not, and its
  score column is the first column whose lower-cased name contains \<open>score\<close> if there
  is one and the second column if not. The heatmap builder has no second-column rule
  for the score: when no column name contains \<open>score\<close>, lower-cased, it returns the
  tuple of \<^verbatim>\<open>None\<close>, whatever the other columns are. On a table with a column
  \<open>mutant\<close> it returns that tuple only then, no column lookup fails, and the data it
  returns are built from the rows whose cell under \<open>mutant\<close> is a valid mutation
  code, with the codes read from the column \<open>mutant\<close> and the scores from the first
  column whose lower-cased name contains \<open>score\<close>. The statement is silent on a table
  that has a score column and no column \<open>mutant\<close>.
\<close>

theorem column_resolution:
  "(generate_mutation_ai_prompt ts df name = None \<longleftrightarrow>
      columns df = [] \<or> (find_score_col (columns df) = None \<and> length (columns df) < 2))
   \<and> (\<forall>p. generate_mutation_ai_prompt ts df name = Some p \<longrightarrow>
        score_col_in p =
          (case find_score_col (columns df) of Some c \<Rightarrow> c | None \<Rightarrow> columns df ! 1)
        \<and> top_mutations_str p =
            ts (if ''mutant'' \<in> set (columns df) then ''mutant'' else columns df ! 0, score_col_in p)
              (select2 df (if ''mutant'' \<in> set (columns df) then ''mutant'' else columns df ! 0)
                 (score_col_in p) (head_df (top_count (length (rows df))) (rows df))))
   \<and> (find_score_col (columns df) = None \<longrightarrow> prepare_plotly_heatmap_data df k = Inr None)
   \<and> (''mutant'' \<in> set (columns df) \<longrightarrow>
        (prepare_plotly_heatmap_data df k = Inr None \<longrightarrow> find_score_col (columns df) = None)
        \<and> prepare_plotly_heatmap_data df k \<noteq> Inl KeyError
        \<and> (\<forall>h. prepare_plotly_heatmap_data df k = Inr (Some h) \<longrightarrow>
              find_score_col (columns df) = Some (score_col h)
              \<and> (\<exists>rs. rank_table df = Inr (Some (score_col h, rs))
                    \<and> map mutant rs =
                        map (\<lambda>r. str_of (column_cell df ''mutant'' r))
                          (filter (\<lambda>r. is_valid_mutation (column_cell df ''mutant'' r)) (rows df))
                    \<and> map (\<lambda>r. Num (score r)) rs =
                        map (column_cell df (score_col h))
                          (filter (\<lambda>r. is_valid_mutation (column_cell df ''mutant'' r)) (rows df))
                    \<and> (rs \<noteq> [] \<longrightarrow>
                          h = build_matrices (score_col h) (retained_positions k rs)
                                (retained_rows k rs)))))"
proof (intro conjI allI impI)
  show "generate_mutation_ai_prompt ts df name = None \<longleftrightarrow>
      columns df = [] \<or> (find_score_col (columns df) = None \<and> length (columns df) < 2)"
    by (rule prompt_None)
next
  fix p assume p: "generate_mutation_ai_prompt ts df name = Some p"
  from prompt_Some [OF p] obtain mc where
    mc: "prompt_mutant_col (columns df) = Some mc"
    and sc: "prompt_score_col (columns df) = Some (score_col_in p)"
    and top: "top_mutations_str p =
           ts (mc, score_col_in p)
             (select2 df mc (score_col_in p) (head_df (top_count (length (rows df))) (rows df)))"
    by blast
  from sc show "score_col_in p =
      (case find_score_col (columns df) of Some c \<Rightarrow> c | None \<Rightarrow> columns df ! 1)"
    by (auto simp: prompt_score_col_def split: option.splits if_splits)
  from mc have "mc = (if ''mutant'' \<in> set (columns df) then ''mutant'' else columns df ! 0)"
    by (auto simp: prompt_mutant_col_def split: if_splits)
  with top show "top_mutations_str p =
            ts (if ''mutant'' \<in> set (columns df) then ''mutant'' else columns df ! 0, score_col_in p)
              (select2 df (if ''mutant'' \<in> set (columns df) then ''mutant'' else columns df ! 0)
                 (score_col_in p) (head_df (top_count (length (rows df))) (rows df)))"
    by simp
next
  assume "find_score_col (columns df) = None"
  then show "prepare_plotly_heatmap_data df k = Inr None"
    by (simp add: prepare_None)
next
  assume "prepare_plotly_heatmap_data df k = Inr None"
  then show "find_score_col (columns df) = None"
    by (simp add: prepare_None)
next
  assume "''mutant'' \<in> set (columns df)"
  then show "prepare_plotly_heatmap_data df k \<noteq> Inl KeyError"
    by (rule prepare_no_KeyError)
next
  fix h assume "prepare_plotly_heatmap_data df k = Inr (Some h)"
  from prepare_Some [OF this] obtain rs where
    rt: "rank_table df = Inr (Some (score_col h, rs))"
    and b: "rs \<noteq> [] \<longrightarrow> h = build_matrices (score_col h) (retained_positions k rs) (retained_rows k rs)"
    by blast
  from rank_table_Some [OF rt] show "find_score_col (columns df) = Some (score_col h)"
    by simp
  from rt rank_table_rows(1) [OF rt] rank_table_rows(2) [OF rt] b
  show "\<exists>rs. rank_table df = Inr (Some (score_col h, rs))
      \<and> map mutant rs =
          map (\<lambda>r. str_of (column_cell df ''mutant'' r))
            (filter (\<lambda>r. is_valid_mutation (column_cell df ''mutant'' r)) (rows df))
      \<and> map (\<lambda>r. Num (score r)) rs =
          map (column_cell df (score_col h))
            (filter (\<lambda>r. is_valid_mutation (column_cell df ''mutant'' r)) (rows df))
      \<and> (rs \<noteq> [] \<longrightarrow>
            h = build_matrices (score_col h) (retained_positions k rs) (retained_rows k rs))"
    by (intro exI [of _ rs] conjI)
qed

theorem column_resolution_witness:
  "generate_mutation_ai_prompt count_rows scenario_a_table ''ESM2-650M'' =
     Some \<lparr> model_name_in = ''ESM2-650M'', score_col_in = ''score'',
            top_mutations_str = ''3'', lowest_mutations_str = ''N/A'' \<rparr>
   \<and> ''mutant'' \<in> set (columns scenario_a_table)
   \<and> (\<exists>h. prepare_plotly_heatmap_data scenario_a_table (Some 40) = Inr (Some h))
   \<and> find_score_col (columns scenario_a_table) = Some ''score''
   \<and> find_score_col (columns no_score_name) = None
   \<and> prepare_plotly_heatmap_data no_score_name (Some 40) = Inr None"
proof -
  have g: "generate_mutation_ai_prompt count_rows scenario_a_table ''ESM2-650M'' =
     Some \<lparr> model_name_in = ''ESM2-650M'', score_col_in = ''score'',
            top_mutations_str = ''3'', lowest_mutations_str = ''N/A'' \<rparr>"
    by code_simp
  have m: "''mutant'' \<in> set (columns scenario_a_table)"
    by (simp add: scenario_a_table_def)
  have "map_sum id (map_option score_col)
          (prepare_plotly_heatmap_data scenario_a_table (Some 40)) = Inr (Some ''score'')"
    by code_simp
  from map_sum_option_SomeD [OF this] obtain h where
    h: "prepare_plotly_heatmap_data scenario_a_table (Some 40) = Inr (Some h)"
    and sc: "score_col h = ''score''"
    by blast
  from column_resolution [of count_rows scenario_a_table "''ESM2-650M''" "Some 40"]
  have "''mutant'' \<in> set (columns scenario_a_table) \<longrightarrow>
      (\<forall>h. prepare_plotly_heatmap_data scenario_a_table (Some 40) = Inr (Some h) \<longrightarrow>
        find_score_col (columns scenario_a_table) = Some (score_col h))"
    by blast
  with m h have f: "find_score_col (columns scenario_a_table) = Some (score_col h)"
    by blast
  from f have f': "find_score_col (columns scenario_a_table) = Some ''score''"
    unfolding sc .
  have n: "find_score_col (columns no_score_name) = None"
    by code_simp
  from column_resolution [of count_rows no_score_name "''ESM2-650M''" "Some 40"]
  have "find_score_col (columns no_score_name) = None \<longrightarrow>
      prepare_plotly_heatmap_data no_score_name (Some 40) = Inr None"
    by blast
  with n have e: "prepare_plotly_heatmap_data no_score_name (Some 40) = Inr None"
    by blast
  show ?thesis
    by (intro conjI exI [of _ h]) (rule g h m f' n e)+
qed

subsection \<open>The loop over the rows\<close>

lemma set_cell_shape: "map length (set_cell m y x v) = map length m"
proof (cases "y < length m")
  case True
  then have "(map length m)[y := length (m ! y)] = map length m"
    by (metis list_update_id nth_map)
  then show ?thesis
    by (simp add: set_cell_def map_update)
next
  case False
  then show ?thesis
    by (simp add: set_cell_def list_update_beyond)
qed

lemma set_cell_nth:
  assumes "i < length m" and "j < length (m ! i)"
  shows "set_cell m y x v ! i ! j = (if y = i \<and> x = j then Some v else m ! i ! j)"
  using assms by (cases "y = i"; cases "x = j") (simp_all add: set_cell_def)

lemma shape_nth:
  "map length a = map length b \<Longrightarrow> length a = length b \<and> (\<forall>i < length b. length (a ! i) = length (b ! i))"
  by (metis length_map nth_map)

lemma fold_cells:
  fixes f :: "'r \<Rightarrow> rat" and key :: "'r \<Rightarrow> (nat \<times> nat) option"
  defines "step \<equiv> \<lambda>row m. case key row of None \<Rightarrow> m | Some (y, x) \<Rightarrow> set_cell m y x (f row)"
  shows "map length (fold step rs m0) = map length m0"
    and "i < length m0 \<Longrightarrow> j < length (m0 ! i) \<Longrightarrow>
         fold step rs m0 ! i ! j =
           (case find (\<lambda>row. key row = Some (i, j)) (rev rs) of
              None \<Rightarrow> m0 ! i ! j
            | Some row \<Rightarrow> Some (f row))"
proof -
  show shape: "map length (fold step rs m0) = map length m0" for rs
    by (induction rs rule: rev_induct)
       (auto simp: step_def set_cell_shape split: option.splits)
  assume i: "i < length m0" and j: "j < length (m0 ! i)"
  show "fold step rs m0 ! i ! j =
           (case find (\<lambda>row. key row = Some (i, j)) (rev rs) of
              None \<Rightarrow> m0 ! i ! j
            | Some row \<Rightarrow> Some (f row))"
  proof (induction rs rule: rev_induct)
    case Nil
    then show ?case by simp
  next
    case (snoc row rs)
    let ?m = "fold step rs m0"
    from shape_nth [OF shape [of rs]] i j
    have i': "i < length ?m" and j': "j < length (?m ! i)"
      by auto
    show ?case
    proof (cases "key row")
      case None
      with snoc show ?thesis
        by (simp add: step_def)
    next
      case (Some c)
      obtain y x where c: "c = (y, x)" by (cases c)
      with Some snoc set_cell_nth [OF i' j', of y x "f row"] show ?thesis
        by (auto simp: step_def)
    qed
  qed
qed

lemma fold_write_row_split:
  "fold (write_row sp xl) rs (z0, r0, s0) =
     (fold (\<lambda>row m. case cell_of sp xl row of None \<Rightarrow> m
                     | Some (y, x) \<Rightarrow> set_cell m y x (of_int (inverted_rank_bin row))) rs z0,
      fold (\<lambda>row m. case cell_of sp xl row of None \<Rightarrow> m
                     | Some (y, x) \<Rightarrow> set_cell m y x (of_nat (rank row))) rs r0,
      fold (\<lambda>row m. case cell_of sp xl row of None \<Rightarrow> m
                     | Some (y, x) \<Rightarrow> set_cell m y x (round3 (score row))) rs s0)"
  by (induction rs arbitrary: z0 r0 s0)
     (auto simp: write_row_def split: option.splits)

subsection \<open>The matrices\<close>

lemma index_of_distinct:
  "distinct xs \<Longrightarrow> index_of xs a = Some i \<longleftrightarrow> i < length xs \<and> xs ! i = a"
proof (induction xs arbitrary: i)
  case Nil
  then show ?case by simp
next
  case (Cons x xs)
  show ?case
  proof (cases "x = a")
    case True
    with Cons.prems have "a \<notin> set xs" by simp
    then have "\<And>k. k < length xs \<Longrightarrow> xs ! k \<noteq> a"
      by (metis nth_mem)
    with True show ?thesis
      by (cases i) auto
  next
    case False
    from Cons.prems have d: "distinct xs" by simp
    show ?thesis
    proof (cases i)
      case 0
      with False show ?thesis by simp
    next
      case (Suc k)
      with False Cons.IH [OF d, of k] show ?thesis by simp
    qed
  qed
qed
lemma cell_of_iff:
  assumes "distinct sp" and "distinct xl"
  shows "cell_of sp xl row = Some (i, j) \<longleftrightarrow>
     i < length sp \<and> sp ! i = position row \<and> j < length xl \<and> xl ! j = last (mutant row)"
proof -
  have "cell_of sp xl row = Some (i, j) \<longleftrightarrow>
      index_of sp (position row) = Some i \<and> index_of xl (last (mutant row)) = Some j"
    by (simp add: cell_of_def split: option.splits)
  also have "\<dots> \<longleftrightarrow> (i < length sp \<and> sp ! i = position row)
      \<and> (j < length xl \<and> xl ! j = last (mutant row))"
    by (simp only: index_of_distinct [OF assms(1)] index_of_distinct [OF assms(2)])
  finally show ?thesis
    by (simp only: conj_assoc)
qed

lemma find_rev_last:
  "find P (rev xs) = (if filter P xs = [] then None else Some (last (filter P xs)))"
  by (induction xs rule: rev_induct) auto

lemma amino_acids_props: "distinct amino_acids" "length amino_acids = 20"
  by (simp_all add: amino_acids_def)

lemma distinct_retained: "distinct (retained_positions k rs)"
  by (cases k) (simp_all add: retained_positions_def)

lemma wt_map_of_snoc:
  "wt_map_of (rs @ [r]) = (wt_map_of rs)(position r \<mapsto> hd (mutant r))"
  by (simp add: wt_map_of_def)

lemma wt_map_of_last:
  "wt_map_of rs p =
     (if filter (\<lambda>r. position r = p) rs = [] then None
      else Some (hd (mutant (last (filter (\<lambda>r. position r = p) rs)))))"
proof (induction rs rule: rev_induct)
  case Nil
  show ?case by (simp add: wt_map_of_def)
next
  case (snoc r rs)
  show ?case
  proof (cases "position r = p")
    case True
    then show ?thesis by (simp add: wt_map_of_snoc)
  next
    case False
    with snoc show ?thesis by (simp add: wt_map_of_snoc)
  qed
qed

lemma build_labels:
  "x_labels (build_matrices sc sp rs) = amino_acids"
  "y_labels (build_matrices sc sp rs) =
     map (\<lambda>pos. (case wt_map_of rs pos of Some c \<Rightarrow> c | None \<Rightarrow> CHR ''?'') # str_nat pos) sp"
  by (simp_all add: build_matrices_def Let_def split: prod.splits)

lemma build_folds:
  "z_data (build_matrices sc sp rs) =
     fold (\<lambda>row m. case cell_of sp amino_acids row of None \<Rightarrow> m
                     | Some (y, x) \<Rightarrow> set_cell m y x (of_int (inverted_rank_bin row))) rs
       (replicate (length sp) (replicate (length amino_acids) None))"
  "rank_matrix (build_matrices sc sp rs) =
     fold (\<lambda>row m. case cell_of sp amino_acids row of None \<Rightarrow> m
                     | Some (y, x) \<Rightarrow> set_cell m y x (of_nat (rank row))) rs
       (replicate (length sp) (replicate (length amino_acids) None))"
  "score_matrix (build_matrices sc sp rs) =
     fold (\<lambda>row m. case cell_of sp amino_acids row of None \<Rightarrow> m
                     | Some (y, x) \<Rightarrow> set_cell m y x (round3 (score row))) rs
       (replicate (length sp) (replicate (length amino_acids) None))"
  by (simp_all add: build_matrices_def Let_def fold_write_row_split)

lemma build_shape:
  "map length (z_data (build_matrices sc sp rs)) = replicate (length sp) 20"
  "map length (rank_matrix (build_matrices sc sp rs)) = replicate (length sp) 20"
  "map length (score_matrix (build_matrices sc sp rs)) = replicate (length sp) 20"
  by (simp_all only: build_folds fold_cells(1) amino_acids_props map_replicate length_replicate)

lemma build_cells:
  fixes rs :: "ranked_row list" and sp :: "nat list" and i j :: nat
  assumes "distinct sp" and "i < length sp" and "j < 20"
  defines "hits \<equiv> filter (\<lambda>row. position row = sp ! i \<and> last (mutant row) = amino_acids ! j) rs"
  shows "z_data (build_matrices sc sp rs) ! i ! j =
           (if hits = [] then None else Some (of_int (inverted_rank_bin (last hits))))"
    and "rank_matrix (build_matrices sc sp rs) ! i ! j =
           (if hits = [] then None else Some (of_nat (rank (last hits))))"
    and "score_matrix (build_matrices sc sp rs) ! i ! j =
           (if hits = [] then None else Some (round3 (score (last hits))))"
proof -
  let ?init = "replicate (length sp) (replicate (length amino_acids) (None :: rat option))"
  have eq: "(\<lambda>row. cell_of sp amino_acids row = Some (i, j)) =
            (\<lambda>row. position row = sp ! i \<and> last (mutant row) = amino_acids ! j)"
  proof
    fix row
    from assms(2,3) cell_of_iff [OF assms(1) amino_acids_props(1), of row i j]
    show "(cell_of sp amino_acids row = Some (i, j)) =
          (position row = sp ! i \<and> last (mutant row) = amino_acids ! j)"
      by (simp add: amino_acids_props(2) eq_commute)
  qed
  have i: "i < length ?init"
    using assms(2) by simp
  have j: "j < length (?init ! i)"
    using assms(2,3) by (simp add: amino_acids_props)
  have init: "?init ! i ! j = None"
    using assms(2,3) by (simp add: amino_acids_props)
  have f: "find (\<lambda>row. cell_of sp amino_acids row = Some (i, j)) (rev rs) =
      (if hits = [] then None else Some (last hits))"
    unfolding eq hits_def by (rule find_rev_last)
  show "z_data (build_matrices sc sp rs) ! i ! j =
           (if hits = [] then None else Some (of_int (inverted_rank_bin (last hits))))"
    unfolding build_folds fold_cells(2) [OF i j] f init by simp
  show "rank_matrix (build_matrices sc sp rs) ! i ! j =
           (if hits = [] then None else Some (of_nat (rank (last hits))))"
    unfolding build_folds fold_cells(2) [OF i j] f init by simp
  show "score_matrix (build_matrices sc sp rs) ! i ! j =
           (if hits = [] then None else Some (round3 (score (last hits))))"
    unfolding build_folds fold_cells(2) [OF i j] f init by simp
qed

lemma prepare_build:
  "rank_table df = Inr (Some (sc, rs)) \<Longrightarrow> rs \<noteq> [] \<Longrightarrow>
     prepare_plotly_heatmap_data df k =
       Inr (Some (build_matrices sc (retained_positions k rs) (retained_rows k rs)))"
  by (simp add: prepare_plotly_heatmap_data_def)

lemma hits_retained:
  assumes "p \<in> set (retained_positions k rs)"
  shows "filter (\<lambda>row. position row = p \<and> Q row) (retained_rows k rs) =
         filter (\<lambda>row. position row = p \<and> Q row) rs"
proof (cases k)
  case None
  then show ?thesis by (simp add: retained_rows_def)
next
  case (Some n)
  have "filter (\<lambda>row. position row = p \<and> Q row)
          (filter (\<lambda>r. position r \<in> set (retained_positions k rs)) rs) =
        filter (\<lambda>row. position row = p \<and> Q row) rs"
    unfolding filter_filter using assms by (intro filter_cong) auto
  with Some show ?thesis by (simp add: retained_rows_def)
qed

lemma position_retained:
  assumes "p \<in> set (retained_positions k rs)"
  shows "filter (\<lambda>row. position row = p) (retained_rows k rs) =
         filter (\<lambda>row. position row = p) rs"
  using hits_retained [OF assms, of "\<lambda>_. True"] by simp

lemma set_retained_None: "set (retained_positions None rs) = position ` set rs"
  by (simp add: retained_positions_def)

lemma set_retained_subset: "set (retained_positions k rs) \<subseteq> position ` set rs"
  by (cases k) (auto simp: retained_positions_def dest: in_set_takeD)

lemma nth_index_ex: "a \<in> set xs \<Longrightarrow> \<exists>i < length xs. xs ! i = a"
  by (simp add: in_set_conv_nth)

lemma build_cells_retained:
  fixes rs :: "ranked_row list" and k :: "nat option" and i j :: nat and sc :: string
  assumes "i < length (retained_positions k rs)" and "j < 20"
  defines "hits \<equiv> filter (\<lambda>row. position row = retained_positions k rs ! i
                                  \<and> last (mutant row) = amino_acids ! j) rs"
  defines "h \<equiv> build_matrices sc (retained_positions k rs) (retained_rows k rs)"
  shows "z_data h ! i ! j = (if hits = [] then None else Some (of_int (inverted_rank_bin (last hits))))"
    and "rank_matrix h ! i ! j = (if hits = [] then None else Some (of_nat (rank (last hits))))"
    and "score_matrix h ! i ! j = (if hits = [] then None else Some (round3 (score (last hits))))"
proof -
  have "retained_positions k rs ! i \<in> set (retained_positions k rs)"
    using assms(1) by simp
  from hits_retained [OF this, of "\<lambda>row. last (mutant row) = amino_acids ! j"]
  have eq: "filter (\<lambda>row. position row = retained_positions k rs ! i
                          \<and> last (mutant row) = amino_acids ! j) (retained_rows k rs) = hits"
    by (simp add: hits_def)
  note c = build_cells [OF distinct_retained assms(1,2), where rs = "retained_rows k rs" and sc = sc, unfolded eq, folded h_def]
  show "z_data h ! i ! j = (if hits = [] then None else Some (of_int (inverted_rank_bin (last hits))))"
    by (rule c(1))
  show "rank_matrix h ! i ! j = (if hits = [] then None else Some (of_nat (rank (last hits))))"
    by (rule c(2))
  show "score_matrix h ! i ! j = (if hits = [] then None else Some (round3 (score (last hits))))"
    by (rule c(3))
qed

text \<open>
  Claim C3, as stated: every pair of a position and a substituted letter of a valid row
  has its cell set. The code \<open>A1X\<close> is valid, and \<open>X\<close> is not one of the 20
  column letters: the matrices of the table with this one row have the row \<open>A1\<close>
  and no cell set. With a cap of one position, the valid row \<open>G2D\<close> of a table with
  the positions 1 and 2 has no row in the matrices.
\<close>

theorem cells_written_counterexample:
  "is_valid_mutation (Str ''A1X'')
   \<and> prepare_plotly_heatmap_data noncanonical_table None =
       Inr (Some \<lparr> x_labels = ''ACDEFGHIKLMNPQRSTVWY'', y_labels = [''A1''],
                   z_data = [replicate 20 None], rank_matrix = [replicate 20 None],
                   score_matrix = [replicate 20 None], score_col = ''score'' \<rparr>)
   \<and> is_valid_mutation (Str ''G2D'')
   \<and> map_sum id (map_option y_labels) (prepare_plotly_heatmap_data two_position_table (Some 1)) =
       Inr (Some [''A1''])
   \<and> map_sum id (map_option (\<lambda>h. length (z_data h))) (prepare_plotly_heatmap_data two_position_table (Some 1)) =
       Inr (Some 1)"
  by code_simp
text \<open>
  Claim C3, amended. Let \<open>rs\<close> be the ranked valid rows of a table that has at least
  one, and \<open>sp\<close> the retained positions (all positions when there is no cap). The
  three matrices have one row of 20 cells for each retained position. The cell of the
  \<open>i\<close>-th retained position and the \<open>j\<close>-th of the 20 letters is unset in all
  three matrices when no valid row has that position and that substituted letter;
  otherwise it holds, in the three matrices, the bin, the rank and the score rounded to
  three decimals of the last such row. So every valid row at a retained position whose
  substituted letter is one of the 20 has its cell set in all three matrices, and a
  valid row with another letter is written nowhere.
\<close>

theorem cells_written:
  assumes "rank_table df = Inr (Some (sc, rs))" and "rs \<noteq> []"
  shows "\<exists>h. prepare_plotly_heatmap_data df k = Inr (Some h)
     \<and> map mutant rs =
         map (\<lambda>r. str_of (column_cell df ''mutant'' r))
           (filter (\<lambda>r. is_valid_mutation (column_cell df ''mutant'' r)) (rows df))
     \<and> map (\<lambda>r. py_int (butlast (tl (mutant r)))) rs = map (\<lambda>r. Inr (position r)) rs
     \<and> x_labels h = amino_acids
     \<and> map length (z_data h) = replicate (length (retained_positions k rs)) 20
     \<and> map length (rank_matrix h) = replicate (length (retained_positions k rs)) 20
     \<and> map length (score_matrix h) = replicate (length (retained_positions k rs)) 20
     \<and> (\<forall>i < length (retained_positions k rs). \<forall>j < 20.
          (filter (\<lambda>row. position row = retained_positions k rs ! i
                           \<and> last (mutant row) = amino_acids ! j) rs = [] \<longrightarrow>
             z_data h ! i ! j = None \<and> rank_matrix h ! i ! j = None
             \<and> score_matrix h ! i ! j = None)
          \<and> (filter (\<lambda>row. position row = retained_positions k rs ! i
                           \<and> last (mutant row) = amino_acids ! j) rs \<noteq> [] \<longrightarrow>
             z_data h ! i ! j =
               Some (of_int (inverted_rank_bin (last (filter (\<lambda>row. position row = retained_positions k rs ! i
                           \<and> last (mutant row) = amino_acids ! j) rs))))
             \<and> rank_matrix h ! i ! j =
               Some (of_nat (rank (last (filter (\<lambda>row. position row = retained_positions k rs ! i
                           \<and> last (mutant row) = amino_acids ! j) rs))))
             \<and> score_matrix h ! i ! j =
               Some (round3 (score (last (filter (\<lambda>row. position row = retained_positions k rs ! i
                           \<and> last (mutant row) = amino_acids ! j) rs))))))
     \<and> (\<forall>r \<in> set rs. position r \<in> set (retained_positions k rs)
            \<and> last (mutant r) \<in> set amino_acids \<longrightarrow>
          (\<exists>i < length (retained_positions k rs). \<exists>j < 20.
             retained_positions k rs ! i = position r \<and> amino_acids ! j = last (mutant r)
             \<and> z_data h ! i ! j \<noteq> None \<and> rank_matrix h ! i ! j \<noteq> None
             \<and> score_matrix h ! i ! j \<noteq> None))
     \<and> (k = None \<longrightarrow> set (retained_positions k rs) = position ` set rs)"
proof -
  let ?sp = "retained_positions k rs"
  let ?h = "build_matrices sc ?sp (retained_rows k rs)"
  have p: "prepare_plotly_heatmap_data df k = Inr (Some ?h)"
    using assms by (rule prepare_build)
  have cells: "\<forall>i < length ?sp. \<forall>j < 20.
          (filter (\<lambda>row. position row = ?sp ! i \<and> last (mutant row) = amino_acids ! j) rs = [] \<longrightarrow>
             z_data ?h ! i ! j = None \<and> rank_matrix ?h ! i ! j = None
             \<and> score_matrix ?h ! i ! j = None)
          \<and> (filter (\<lambda>row. position row = ?sp ! i \<and> last (mutant row) = amino_acids ! j) rs \<noteq> [] \<longrightarrow>
             z_data ?h ! i ! j =
               Some (of_int (inverted_rank_bin (last (filter (\<lambda>row. position row = ?sp ! i
                           \<and> last (mutant row) = amino_acids ! j) rs))))
             \<and> rank_matrix ?h ! i ! j =
               Some (of_nat (rank (last (filter (\<lambda>row. position row = ?sp ! i
                           \<and> last (mutant row) = amino_acids ! j) rs))))
             \<and> score_matrix ?h ! i ! j =
               Some (round3 (score (last (filter (\<lambda>row. position row = ?sp ! i
                           \<and> last (mutant row) = amino_acids ! j) rs)))))"
  proof (intro allI impI)
    fix i j assume i: "i < length ?sp" and j: "j < (20::nat)"
    note c = build_cells_retained [OF i j, of sc]
    show "(filter (\<lambda>row. position row = ?sp ! i \<and> last (mutant row) = amino_acids ! j) rs = [] \<longrightarrow>
             z_data ?h ! i ! j = None \<and> rank_matrix ?h ! i ! j = None
             \<and> score_matrix ?h ! i ! j = None)
          \<and> (filter (\<lambda>row. position row = ?sp ! i \<and> last (mutant row) = amino_acids ! j) rs \<noteq> [] \<longrightarrow>
             z_data ?h ! i ! j =
               Some (of_int (inverted_rank_bin (last (filter (\<lambda>row. position row = ?sp ! i
                           \<and> last (mutant row) = amino_acids ! j) rs))))
             \<and> rank_matrix ?h ! i ! j =
               Some (of_nat (rank (last (filter (\<lambda>row. position row = ?sp ! i
                           \<and> last (mutant row) = amino_acids ! j) rs))))
             \<and> score_matrix ?h ! i ! j =
               Some (round3 (score (last (filter (\<lambda>row. position row = ?sp ! i
                           \<and> last (mutant row) = amino_acids ! j) rs)))))"
      unfolding c by simp
  qed
  have rows: "\<forall>r \<in> set rs. position r \<in> set ?sp \<and> last (mutant r) \<in> set amino_acids \<longrightarrow>
          (\<exists>i < length ?sp. \<exists>j < 20.
             ?sp ! i = position r \<and> amino_acids ! j = last (mutant r)
             \<and> z_data ?h ! i ! j \<noteq> None \<and> rank_matrix ?h ! i ! j \<noteq> None
             \<and> score_matrix ?h ! i ! j \<noteq> None)"
  proof (intro ballI impI)
    fix r assume r: "r \<in> set rs"
      and "position r \<in> set ?sp \<and> last (mutant r) \<in> set amino_acids"
    then have "position r \<in> set ?sp" and "last (mutant r) \<in> set amino_acids"
      by blast+
    from nth_index_ex [OF this(1)] nth_index_ex [OF this(2)]
    obtain i j where i: "i < length ?sp" and pi: "?sp ! i = position r"
      and j: "j < 20" and pj: "amino_acids ! j = last (mutant r)"
      by (auto simp: amino_acids_props(2))
    from r pi pj have ne: "filter (\<lambda>row. position row = ?sp ! i
        \<and> last (mutant row) = amino_acids ! j) rs \<noteq> []"
      by (simp add: filter_empty_conv) metis
    note c = build_cells_retained [OF i j, of sc]
    from ne have "z_data ?h ! i ! j \<noteq> None" and "rank_matrix ?h ! i ! j \<noteq> None"
      and "score_matrix ?h ! i ! j \<noteq> None"
      unfolding c by simp_all
    with i j pi pj show "\<exists>i < length ?sp. \<exists>j < 20.
             ?sp ! i = position r \<and> amino_acids ! j = last (mutant r)
             \<and> z_data ?h ! i ! j \<noteq> None \<and> rank_matrix ?h ! i ! j \<noteq> None
             \<and> score_matrix ?h ! i ! j \<noteq> None"
      by blast
  qed
  have all: "k = None \<longrightarrow> set ?sp = position ` set rs"
    by (auto simp: set_retained_None)
  show ?thesis
    by (intro exI [of _ ?h] conjI)
       (rule p rank_table_rows(1) [OF assms(1)] rank_table_rows(3) [OF assms(1)]
          build_labels(1) build_shape cells rows all)+
qed
theorem cells_written_witness:
  "rank_table scenario_a_table = Inr (Some (''score'', annotate scenario_a))
   \<and> annotate scenario_a \<noteq> []
   \<and> (\<exists>h. prepare_plotly_heatmap_data scenario_a_table None = Inr (Some h)
         \<and> z_data h ! 0 ! 0 = Some 7 \<and> rank_matrix h ! 0 ! 0 = Some 1
         \<and> score_matrix h ! 0 ! 0 = Some (9 / 10)
         \<and> z_data h ! 0 ! 2 = None \<and> rank_matrix h ! 0 ! 2 = None
         \<and> score_matrix h ! 0 ! 2 = None)"
proof -
  let ?rs = "annotate scenario_a"
  let ?sp = "retained_positions None ?rs"
  let ?hit = "\<lambda>i j row. position row = ?sp ! i \<and> last (mutant row) = amino_acids ! j"
  have rt: "rank_table scenario_a_table = Inr (Some (''score'', ?rs))"
    by code_simp
  have ne: "?rs \<noteq> []"
    by code_simp
  from cells_written [OF rt ne, of None] obtain h where
    p: "prepare_plotly_heatmap_data scenario_a_table None = Inr (Some h)"
    and cells: "\<forall>i < length ?sp. \<forall>j < 20.
          (filter (?hit i j) ?rs = [] \<longrightarrow>
             z_data h ! i ! j = None \<and> rank_matrix h ! i ! j = None
             \<and> score_matrix h ! i ! j = None)
          \<and> (filter (?hit i j) ?rs \<noteq> [] \<longrightarrow>
             z_data h ! i ! j = Some (of_int (inverted_rank_bin (last (filter (?hit i j) ?rs))))
             \<and> rank_matrix h ! i ! j = Some (of_nat (rank (last (filter (?hit i j) ?rs))))
             \<and> score_matrix h ! i ! j = Some (round3 (score (last (filter (?hit i j) ?rs)))))"
    by blast
  have i: "0 < length ?sp"
    by code_simp
  have h00: "filter (?hit 0 0) ?rs \<noteq> []"
    by code_simp
  have h02: "filter (?hit 0 2) ?rs = []"
    by code_simp
  have b: "(of_int (inverted_rank_bin (last (filter (?hit 0 0) ?rs))) :: rat) = 7"
    by code_simp
  have r: "(of_nat (rank (last (filter (?hit 0 0) ?rs))) :: rat) = 1"
    by code_simp
  have s: "round3 (score (last (filter (?hit 0 0) ?rs))) = 9 / 10"
    by code_simp
  from cells i have c0: "\<forall>j < 20.
          (filter (?hit 0 j) ?rs = [] \<longrightarrow>
             z_data h ! 0 ! j = None \<and> rank_matrix h ! 0 ! j = None
             \<and> score_matrix h ! 0 ! j = None)
          \<and> (filter (?hit 0 j) ?rs \<noteq> [] \<longrightarrow>
             z_data h ! 0 ! j = Some (of_int (inverted_rank_bin (last (filter (?hit 0 j) ?rs))))
             \<and> rank_matrix h ! 0 ! j = Some (of_nat (rank (last (filter (?hit 0 j) ?rs))))
             \<and> score_matrix h ! 0 ! j = Some (round3 (score (last (filter (?hit 0 j) ?rs)))))"
    by blast
  have "(0::nat) < 20" and "(2::nat) < 20"
    by simp_all
  with c0 h00 h02 have
    "z_data h ! 0 ! 0 = Some (of_int (inverted_rank_bin (last (filter (?hit 0 0) ?rs))))"
    "rank_matrix h ! 0 ! 0 = Some (of_nat (rank (last (filter (?hit 0 0) ?rs))))"
    "score_matrix h ! 0 ! 0 = Some (round3 (score (last (filter (?hit 0 0) ?rs))))"
    "z_data h ! 0 ! 2 = None" "rank_matrix h ! 0 ! 2 = None" "score_matrix h ! 0 ! 2 = None"
    by blast+
  then have v: "z_data h ! 0 ! 0 = Some 7" "rank_matrix h ! 0 ! 0 = Some 1"
    "score_matrix h ! 0 ! 0 = Some (9 / 10)"
    "z_data h ! 0 ! 2 = None" "rank_matrix h ! 0 ! 2 = None" "score_matrix h ! 0 ! 2 = None"
    unfolding b r s by this+
  show ?thesis
    by (intro conjI exI [of _ h]) (rule rt ne p v)+
qed

lemma retained_nonempty:
  assumes "p \<in> set (retained_positions k rs)"
  shows "filter (\<lambda>r. position r = p) rs \<noteq> []"
proof -
  from assms set_retained_subset [of k rs] obtain r where "r \<in> set rs" and "position r = p"
    by auto
  then show ?thesis
    by (auto simp: filter_empty_conv)
qed

lemma build_label_nth:
  assumes "i < length (retained_positions k rs)"
  shows "y_labels (build_matrices sc (retained_positions k rs) (retained_rows k rs)) ! i =
     hd (mutant (last (filter (\<lambda>r. position r = retained_positions k rs ! i) rs)))
       # str_nat (retained_positions k rs ! i)"
proof -
  let ?p = "retained_positions k rs ! i"
  have m: "?p \<in> set (retained_positions k rs)"
    using assms by simp
  have "wt_map_of (retained_rows k rs) ?p =
      Some (hd (mutant (last (filter (\<lambda>r. position r = ?p) rs))))"
    unfolding wt_map_of_last position_retained [OF m]
    using retained_nonempty [OF m] by simp
  with assms show ?thesis
    by (simp add: build_labels(2))
qed

text \<open>
  Claim C5, as stated: the label takes the wild type of the first row seen at the
  position. With the valid rows \<open>A5C\<close> and \<open>G5D\<close>, in this order, the label of
  position 5 is \<open>G5\<close>.
\<close>

theorem wild_type_label_counterexample:
  "rows two_wild_types = [[Str ''A5C'', Num (1 / 2)], [Str ''G5D'', Num (1 / 4)]]
   \<and> is_valid_mutation (Str ''A5C'') \<and> is_valid_mutation (Str ''G5D'')
   \<and> map_sum id (map_option y_labels) (prepare_plotly_heatmap_data two_wild_types None) =
       Inr (Some [''G5''])"
  by code_simp

text \<open>
  Claim C5, amended. Let \<open>rs\<close> be the ranked valid rows of a table that has at least
  one. There is one row label for each retained position, in ascending order of the
  positions, and the label of a position is the first character of the last valid row
  at that position, followed by the position in decimal.
\<close>

theorem wild_type_label:
  assumes "rank_table df = Inr (Some (sc, rs))" and "rs \<noteq> []"
  shows "\<exists>h. prepare_plotly_heatmap_data df k = Inr (Some h)
     \<and> map mutant rs =
         map (\<lambda>r. str_of (column_cell df ''mutant'' r))
           (filter (\<lambda>r. is_valid_mutation (column_cell df ''mutant'' r)) (rows df))
     \<and> map (\<lambda>r. py_int (butlast (tl (mutant r)))) rs = map (\<lambda>r. Inr (position r)) rs
     \<and> length (y_labels h) = length (retained_positions k rs)
     \<and> (\<forall>i < length (retained_positions k rs).
          filter (\<lambda>r. position r = retained_positions k rs ! i) rs \<noteq> []
          \<and> y_labels h ! i =
              hd (mutant (last (filter (\<lambda>r. position r = retained_positions k rs ! i) rs)))
                # str_nat (retained_positions k rs ! i))"
proof -
  let ?sp = "retained_positions k rs"
  let ?h = "build_matrices sc ?sp (retained_rows k rs)"
  have p: "prepare_plotly_heatmap_data df k = Inr (Some ?h)"
    using assms by (rule prepare_build)
  have l: "length (y_labels ?h) = length ?sp"
    by (simp add: build_labels(2))
  have n: "\<forall>i < length ?sp.
          filter (\<lambda>r. position r = ?sp ! i) rs \<noteq> []
          \<and> y_labels ?h ! i =
              hd (mutant (last (filter (\<lambda>r. position r = ?sp ! i) rs))) # str_nat (?sp ! i)"
    using build_label_nth [of _ k rs sc] retained_nonempty [of _ k rs] by simp
  show ?thesis
    by (intro exI [of _ ?h] conjI)
       (rule p rank_table_rows(1) [OF assms(1)] rank_table_rows(3) [OF assms(1)] l n)+
qed

theorem wild_type_label_witness:
  "(\<exists>rs. rank_table two_wild_types = Inr (Some (''score'', rs)) \<and> rs \<noteq> []
      \<and> map mutant rs = [''A5C'', ''G5D''])
   \<and> (\<exists>h. prepare_plotly_heatmap_data two_wild_types (Some 40) = Inr (Some h)
         \<and> y_labels h ! 0 = ''G5'')"
proof -
  let ?rs = "annotate [(''A5C'', 1 / 2, 5), (''G5D'', 1 / 4, 5)]"
  let ?sp = "retained_positions (Some 40) ?rs"
  have rt: "rank_table two_wild_types = Inr (Some (''score'', ?rs))"
    by code_simp
  have ne: "?rs \<noteq> []"
    by code_simp
  have ms: "map mutant ?rs = [''A5C'', ''G5D'']"
    by code_simp
  from wild_type_label [OF rt ne, of "Some 40"] obtain h where
    p: "prepare_plotly_heatmap_data two_wild_types (Some 40) = Inr (Some h)"
    and n: "\<forall>i < length ?sp.
          filter (\<lambda>r. position r = ?sp ! i) ?rs \<noteq> []
          \<and> y_labels h ! i =
              hd (mutant (last (filter (\<lambda>r. position r = ?sp ! i) ?rs))) # str_nat (?sp ! i)"
    by blast
  have i: "0 < length ?sp"
    by code_simp
  have v: "hd (mutant (last (filter (\<lambda>r. position r = ?sp ! 0) ?rs))) # str_nat (?sp ! 0) = ''G5''"
    by code_simp
  from n i have "y_labels h ! 0 =
      hd (mutant (last (filter (\<lambda>r. position r = ?sp ! 0) ?rs))) # str_nat (?sp ! 0)"
    by blast
  then have y: "y_labels h ! 0 = ''G5''"
    unfolding v .
  have a: "\<exists>rs. rank_table two_wild_types = Inr (Some (''score'', rs)) \<and> rs \<noteq> []
      \<and> map mutant rs = [''A5C'', ''G5D'']"
    by (intro exI [of _ ?rs] conjI) (rule rt ne ms)+
  have b: "\<exists>h. prepare_plotly_heatmap_data two_wild_types (Some 40) = Inr (Some h)
         \<and> y_labels h ! 0 = ''G5''"
    by (intro exI [of _ h] conjI) (rule p y)+
  from a b show ?thesis ..
qed

subsection \<open>The two views\<close>

lemma matrix_prefixI:
  fixes a b :: matrix
  assumes "map length a = replicate n w" and "map length b = replicate m w" and "n \<le> m"
    and "\<And>i j. i < n \<Longrightarrow> j < w \<Longrightarrow> a ! i ! j = b ! i ! j"
  shows "a = take n b"
proof (rule nth_equalityI)
  from assms(1) have la: "length a = n"
    by (metis length_map length_replicate)
  from assms(2) have lb: "length b = m"
    by (metis length_map length_replicate)
  from la lb assms(3) show "length a = length (take n b)"
    by simp
  fix i assume "i < length a"
  with la have i: "i < n" by simp
  with assms(3) lb have ib: "i < length b" by simp
  from assms(1) i la have wa: "length (a ! i) = w"
    by (metis nth_map nth_replicate)
  from assms(2) ib lb have wb: "length (b ! i) = w"
    by (metis nth_map nth_replicate)
  have "a ! i = b ! i"
    by (rule nth_equalityI) (simp_all add: wa wb assms(4) [OF i])
  with i show "a ! i = take n b ! i"
    by simp
qed

lemma retained_take:
  "retained_positions (Some K) rs = take K (retained_positions None rs)"
  by (simp add: retained_positions_def)

lemma views_prefix:
  fixes rs :: "ranked_row list" and K :: nat and sc :: string
  defines "hp \<equiv> build_matrices sc (retained_positions (Some K) rs) (retained_rows (Some K) rs)"
  defines "hf \<equiv> build_matrices sc (retained_positions None rs) (retained_rows None rs)"
  shows "x_labels hp = x_labels hf"
    and "y_labels hp = take K (y_labels hf)"
    and "z_data hp = take K (z_data hf)"
    and "rank_matrix hp = take K (rank_matrix hf)"
    and "score_matrix hp = take K (score_matrix hf)"
proof -
  let ?sp = "retained_positions None rs"
  let ?n = "length (retained_positions (Some K) rs)"
  have n: "?n = min (length ?sp) K"
    by (simp add: retained_take)
  have le: "?n \<le> length ?sp"
    by (simp add: n)
  have nk: "take ?n xs = take K xs" if "length xs = length ?sp" for xs :: "'a list"
    using that by (simp add: n min_def)
  have pos: "retained_positions (Some K) rs ! i = ?sp ! i" if "i < ?n" for i
    using that by (simp add: retained_take)
  have full: "i < length ?sp" if "i < ?n" for i
    using that le by simp
  show "x_labels hp = x_labels hf"
    by (simp add: hp_def hf_def build_labels(1))
  have "y_labels hp = take ?n (y_labels hf)"
  proof (rule nth_equalityI)
    show "length (y_labels hp) = length (take ?n (y_labels hf))"
      using le by (simp add: hp_def hf_def build_labels(2))
    fix i assume "i < length (y_labels hp)"
    then have i: "i < ?n"
      by (simp add: hp_def build_labels(2))
    have "y_labels hp ! i = y_labels hf ! i"
      unfolding hp_def hf_def build_label_nth [OF i] build_label_nth [OF full [OF i]] pos [OF i] ..
    with i show "y_labels hp ! i = take ?n (y_labels hf) ! i"
      by simp
  qed
  then show "y_labels hp = take K (y_labels hf)"
    by (simp add: nk hf_def build_labels(2))
  have "z_data hp = take ?n (z_data hf)"
    unfolding hp_def hf_def
    by (rule matrix_prefixI [OF build_shape(1) build_shape(1) le])
       (simp add: build_cells_retained(1) full pos)
  moreover have "length (z_data hf) = length ?sp"
    unfolding hf_def using build_shape(1) [of sc ?sp "retained_rows None rs"]
    by (metis length_map length_replicate)
  ultimately show "z_data hp = take K (z_data hf)"
    by (simp add: nk)
  have "rank_matrix hp = take ?n (rank_matrix hf)"
    unfolding hp_def hf_def
    by (rule matrix_prefixI [OF build_shape(2) build_shape(2) le])
       (simp add: build_cells_retained(2) full pos)
  moreover have "length (rank_matrix hf) = length ?sp"
    unfolding hf_def using build_shape(2) [of sc ?sp "retained_rows None rs"]
    by (metis length_map length_replicate)
  ultimately show "rank_matrix hp = take K (rank_matrix hf)"
    by (simp add: nk)
  have "score_matrix hp = take ?n (score_matrix hf)"
    unfolding hp_def hf_def
    by (rule matrix_prefixI [OF build_shape(3) build_shape(3) le])
       (simp add: build_cells_retained(3) full pos)
  moreover have "length (score_matrix hf) = length ?sp"
    unfolding hf_def using build_shape(3) [of sc ?sp "retained_rows None rs"]
    by (metis length_map length_replicate)
  ultimately show "score_matrix hp = take K (score_matrix hf)"
    by (simp add: nk)
qed
lemma count_of_rank_table:
  assumes "rank_table df = Inr (Some (sc, rs))" and "rs \<noteq> []"
  shows "\<not> empty_df df"
    and "get_total_residues_count df = Inr (length (remdups (map position rs)))"
proof -
  from assms(1) obtain mi where mi: "index_of (columns df) ''mutant'' = Some mi"
    by (auto simp: rank_table_def split: option.splits)
  from assms(1) obtain c where c: "find_score_col (columns df) = Some c"
    by (auto simp: rank_table_def split: option.splits)
  let ?valid = "filter (\<lambda>r. is_valid_mutation (cell_at r mi)) (rows df)"
  let ?ms = "map (\<lambda>r. str_of (cell_at r mi)) ?valid"
  have v: "?valid \<noteq> []"
  proof
    assume "?valid = []"
    with assms(1) mi c have "rs = []"
      by (simp add: rank_table_def)
    with assms(2) show False ..
  qed
  from assms(1) mi c v obtain ss ps where
    ss: "scores_of (map (column_cell df c) ?valid) = Inr ss"
    and ps: "collect (map (\<lambda>m. py_int (butlast (tl m))) ?ms) = Inr ps"
    and rs: "rs = annotate (zip ?ms (zip ss ps))"
    by (auto simp: rank_table_def Let_def split: sum.splits)
  from scores_of_Inr [OF ss] have ls: "length ss = length ?ms"
    by (metis length_map)
  from collect_Inr [OF ps] have lp: "length ps = length ?ms"
    by (metis length_map)
  from annotate_zip(3) [OF ls lp] rs have pos: "map position rs = ps"
    by simp
  from v have r: "rows df \<noteq> []"
    by auto
  from mi have cs: "columns df \<noteq> []"
    by auto
  from r cs show e: "\<not> empty_df df"
    by (simp add: empty_df_def)
  have "map (\<lambda>r. py_int (butlast (tl (str_of (cell_at r mi))))) ?valid
      = map (\<lambda>m. py_int (butlast (tl m))) ?ms"
    by (simp add: comp_def)
  with ps have "collect (map (\<lambda>r. py_int (butlast (tl (str_of (cell_at r mi))))) ?valid) = Inr ps"
    by (simp only:)
  with e mi v show "get_total_residues_count df = Inr (length (remdups (map position rs)))"
    by (simp add: get_total_residues_count_def pos)
qed

lemma retained_nonempty_list:
  "rs \<noteq> [] \<Longrightarrow> 0 < K \<Longrightarrow> retained_positions (Some K) rs \<noteq> []"
  "rs \<noteq> [] \<Longrightarrow> retained_positions None rs \<noteq> []"
proof -
  assume "rs \<noteq> []"
  then have "set (sort (remdups (map position rs))) \<noteq> {}"
    by simp
  then have n: "sort (remdups (map position rs)) \<noteq> []"
    by (metis set_empty)
  then show "retained_positions None rs \<noteq> []"
    by (simp add: retained_positions_def)
  assume "0 < K"
  with n show "retained_positions (Some K) rs \<noteq> []"
    by (simp add: retained_positions_def)
qed

lemma array_size_build:
  "array_size (z_data (build_matrices sc sp rs)) = length sp * 20"
  by (simp add: array_size_def build_shape(1) sum_list_replicate)

lemma generate_trace:
  assumes "array_size (z_data d) \<noteq> 0"
  shows "fig_trace (generate_plotly_heatmap (Some d) is_partial n) =
     Some \<lparr> trace_z = z_data d, trace_x = x_labels d, trace_y = y_labels d,
            customdata = map2 zip (rank_matrix d) (score_matrix d) \<rparr>"
  using assms by (simp add: generate_plotly_heatmap_def Let_def)

lemma take_map2_zip:
  "map2 zip (take K a) (take K b) = take K (map2 zip a b)"
  by (simp add: take_map take_zip)
text \<open>
  Claim C6. Let \<open>rs\<close> be the ranked valid rows of a table that has at least one. The
  summary view and the complete view are both built from that table: the first from
  its data under the cap of 40 positions, the second from its data without a cap. The
  rows, the labels and the three matrices of the capped data are the first 40 of the
  uncapped data, so a cell of the summary view has the same bin, rank and score as the
  cell of the same position and letter in the complete view; the same holds for the
  traces of the two figures.
\<close>

theorem views_agree:
  assumes "rank_table df = Inr (Some (sc, rs))" and "rs \<noteq> []"
  shows "\<exists>hp hf n tp tf.
       prepare_plotly_heatmap_data df (Some 40) = Inr (Some hp)
     \<and> prepare_plotly_heatmap_data df None = Inr (Some hf)
     \<and> get_total_residues_count df = Inr n
     \<and> collapse_heatmap (Some df) = Inr (generate_plotly_heatmap (Some hp) True n, True, False)
     \<and> expand_heatmap (Some df) = Inr (generate_plotly_heatmap (Some hf) False n, False, True)
     \<and> x_labels hp = x_labels hf
     \<and> y_labels hp = take 40 (y_labels hf)
     \<and> z_data hp = take 40 (z_data hf)
     \<and> rank_matrix hp = take 40 (rank_matrix hf)
     \<and> score_matrix hp = take 40 (score_matrix hf)
     \<and> (\<forall>i < length (y_labels hp).
          y_labels hp ! i = y_labels hf ! i \<and> z_data hp ! i = z_data hf ! i
          \<and> rank_matrix hp ! i = rank_matrix hf ! i \<and> score_matrix hp ! i = score_matrix hf ! i)
     \<and> fig_trace (generate_plotly_heatmap (Some hp) True n) = Some tp
     \<and> fig_trace (generate_plotly_heatmap (Some hf) False n) = Some tf
     \<and> trace_x tp = trace_x tf
     \<and> trace_y tp = take 40 (trace_y tf)
     \<and> trace_z tp = take 40 (trace_z tf)
     \<and> customdata tp = take 40 (customdata tf)"
proof -
  let ?hp = "build_matrices sc (retained_positions (Some 40) rs) (retained_rows (Some 40) rs)"
  let ?hf = "build_matrices sc (retained_positions None rs) (retained_rows None rs)"
  let ?n = "length (remdups (map position rs))"
  let ?tp = "\<lparr> trace_z = z_data ?hp, trace_x = x_labels ?hp, trace_y = y_labels ?hp,
            customdata = map2 zip (rank_matrix ?hp) (score_matrix ?hp) \<rparr>"
  let ?tf = "\<lparr> trace_z = z_data ?hf, trace_x = x_labels ?hf, trace_y = y_labels ?hf,
            customdata = map2 zip (rank_matrix ?hf) (score_matrix ?hf) \<rparr>"
  note e = count_of_rank_table [OF assms]
  have pp: "prepare_plotly_heatmap_data df (Some 40) = Inr (Some ?hp)"
    using assms by (rule prepare_build)
  have pf: "prepare_plotly_heatmap_data df None = Inr (Some ?hf)"
    using assms by (rule prepare_build)
  have c: "collapse_heatmap (Some df) = Inr (generate_plotly_heatmap (Some ?hp) True ?n, True, False)"
    by (simp add: collapse_heatmap_def e pp)
  have x: "expand_heatmap (Some df) = Inr (generate_plotly_heatmap (Some ?hf) False ?n, False, True)"
    by (simp add: expand_heatmap_def e pf)
  note v = views_prefix [of sc 40 rs]
  have ly: "length (y_labels ?hp) \<le> 40"
    by (simp add: v(2))
  have cells: "\<forall>i < length (y_labels ?hp).
          y_labels ?hp ! i = y_labels ?hf ! i \<and> z_data ?hp ! i = z_data ?hf ! i
          \<and> rank_matrix ?hp ! i = rank_matrix ?hf ! i \<and> score_matrix ?hp ! i = score_matrix ?hf ! i"
  proof (intro allI impI)
    fix i assume "i < length (y_labels ?hp)"
    with ly have "i < 40" by simp
    then show "y_labels ?hp ! i = y_labels ?hf ! i \<and> z_data ?hp ! i = z_data ?hf ! i
          \<and> rank_matrix ?hp ! i = rank_matrix ?hf ! i \<and> score_matrix ?hp ! i = score_matrix ?hf ! i"
      by (simp add: v)
  qed
  have "array_size (z_data ?hp) \<noteq> 0"
    using retained_nonempty_list(1) [OF assms(2), of 40] by (simp add: array_size_build)
  from generate_trace [OF this] have tp: "fig_trace (generate_plotly_heatmap (Some ?hp) True ?n) = Some ?tp" .
  have "array_size (z_data ?hf) \<noteq> 0"
    using retained_nonempty_list(2) [OF assms(2)] by (simp add: array_size_build)
  from generate_trace [OF this] have tf: "fig_trace (generate_plotly_heatmap (Some ?hf) False ?n) = Some ?tf" .
  have t1: "trace_x ?tp = trace_x ?tf"
    by (simp add: v(1))
  have t2: "trace_y ?tp = take 40 (trace_y ?tf)"
    by (simp add: v(2))
  have t3: "trace_z ?tp = take 40 (trace_z ?tf)"
    by (simp add: v(3))
  have t4: "customdata ?tp = take 40 (customdata ?tf)"
    by (simp add: v(4,5) take_map2_zip)
  show ?thesis
    by (intro exI [of _ ?hp] exI [of _ ?hf] exI [of _ ?n] exI [of _ ?tp] exI [of _ ?tf] conjI)
       (rule pp pf e(2) c x v cells tp tf t1 t2 t3 t4)+
qed

theorem views_agree_witness:
  "\<exists>rs hp hf. rank_table forty_one_positions = Inr (Some (''score'', rs)) \<and> length rs = 41
     \<and> prepare_plotly_heatmap_data forty_one_positions (Some 40) = Inr (Some hp)
     \<and> prepare_plotly_heatmap_data forty_one_positions None = Inr (Some hf)
     \<and> length (y_labels hf) = 41
     \<and> y_labels hp = take 40 (y_labels hf)
     \<and> z_data hp = take 40 (z_data hf)
     \<and> rank_matrix hp = take 40 (rank_matrix hf)
     \<and> score_matrix hp = take 40 (score_matrix hf)"
proof -
  have "map_sum id (map_option (\<lambda>(sc, rs). (sc, length rs))) (rank_table forty_one_positions)
     = Inr (Some (''score'', 41))"
    by code_simp
  from map_sum_option_SomeD [OF this] obtain rs where
    rt: "rank_table forty_one_positions = Inr (Some (''score'', rs))" and l: "length rs = 41"
    by auto
  from l have ne: "rs \<noteq> []"
    by auto
  have "map_sum id (map_option (\<lambda>h. length (y_labels h)))
       (prepare_plotly_heatmap_data forty_one_positions None) = Inr (Some 41)"
    by code_simp
  from map_sum_option_SomeD [OF this] obtain h where
    h: "prepare_plotly_heatmap_data forty_one_positions None = Inr (Some h)"
    and lh: "length (y_labels h) = 41"
    by auto
  from views_agree [OF rt ne] obtain hp hf where
    pp: "prepare_plotly_heatmap_data forty_one_positions (Some 40) = Inr (Some hp)"
    and pf: "prepare_plotly_heatmap_data forty_one_positions None = Inr (Some hf)"
    and y: "y_labels hp = take 40 (y_labels hf)"
    and z: "z_data hp = take 40 (z_data hf)"
    and r: "rank_matrix hp = take 40 (rank_matrix hf)"
    and s: "score_matrix hp = take 40 (score_matrix hf)"
    by blast
  from h pf have "hf = h"
    by simp
  with lh have lf: "length (y_labels hf) = 41"
    by simp
  show ?thesis
    by (intro exI [of _ rs] exI [of _ hp] exI [of _ hf] conjI) (rule rt l pp pf lf y z r s)+
qed

subsection \<open>Credentials and the export bundle\<close>

lemma strip_empty [simp]: "strip [] = []"
  by (simp add: strip_def)

lemma get_api_key_given:
  "strip user_input_key \<noteq> [] \<Longrightarrow>
     get_api_key env ai_provider user_input_key = Some (strip user_input_key)"
  by (cases "user_input_key = []") (simp_all add: get_api_key_def)

lemma get_api_key_blank:
  assumes "strip user_input_key = []"
  shows "get_api_key env ai_provider user_input_key =
     (if ai_provider = ''DeepSeek''
      then (case env ''DEEPSEEK_API_KEY'' of None \<Rightarrow> None | Some v \<Rightarrow> if v = [] then None else Some v)
      else None)"
  using assms by (simp add: get_api_key_def env_var_map_def split: option.splits)

lemma prepare_uncapped:
  assumes "prepare_plotly_heatmap_data df k = Inr (Some d)"
  shows "\<exists>d'. prepare_plotly_heatmap_data df k' = Inr (Some d')"
proof -
  from prepare_Some [OF assms] obtain sc rs where "rank_table df = Inr (Some (sc, rs))"
    by blast
  then show ?thesis
    by (simp add: prepare_plotly_heatmap_data_def)
qed

lemma paths_differ:
  "a @ ''.csv'' \<noteq> b @ ''.html''"
proof
  assume "a @ ''.csv'' = b @ ''.html''"
  then have "last (a @ ''.csv'') = last (b @ ''.html'')"
    by (rule arg_cong)
  then show False
    by simp
qed

lemma startswith_no_key: "startswith no_key_text cross_mark"
  by (simp add: startswith_def no_key_text_def cross_mark_def)
text \<open>
  Claim C9. A key typed by the caller that is not blank is returned, stripped of the
  surrounding whitespace, whatever the environment holds. With a blank one, the result
  is the value of the variable named for the provider (\<open>DEEPSEEK_API_KEY\<close> for
  \<open>DeepSeek\<close>, the one provider with a variable) when it has a value that is not
  empty, and no key otherwise. In a run of the handler with the summary requested that
  gets past the scorer and the data of the summary view, when that resolution gives
  no key: the handler finishes, the report text of its last update is the text that
  starts with the cross mark and says that no key was found, and the dictionary handed
  to the archive has exactly the entries of the table and of the heatmap, and none for
  the report.
\<close>

theorem no_key_report:
  assumes "mn \<noteq> []" and "f \<noteq> []"
    and "run_zero_shot_prediction model_type mn f = (status, df)"
    and "\<not> empty_df df"
    and "get_total_residues_count df = Inr n"
    and "prepare_plotly_heatmap_data df (Some 40) = Inr (Some d)"
  shows "(strip user_api_key \<noteq> [] \<longrightarrow>
            get_api_key env ai_model user_api_key = Some (strip user_api_key))
     \<and> (strip user_api_key = [] \<longrightarrow>
            get_api_key env ai_model user_api_key =
              (if ai_model = ''DeepSeek''
               then (case env ''DEEPSEEK_API_KEY'' of
                       None \<Rightarrow> None
                     | Some v \<Rightarrow> if v = [] then None else Some v)
               else None))
     \<and> (get_api_key env ai_model user_api_key = None \<longrightarrow>
          (\<exists>ups. handle_prediction_with_ai env run_zero_shot_prediction to_string call_ai_api now
                    model_type (Some mn) (Some f) True ai_model user_api_key =
                  (ups,
                   Inr (Some [(''temp_outputs/temp_'' @ model_type @ ''_results_'' @ str_nat now @ ''.csv'',
                               ''prediction_results.csv''),
                              (''temp_outputs/temp_'' @ model_type @ ''_heatmap_'' @ str_nat now @ ''.html'',
                               ''prediction_heatmap.html'')]))
             \<and> ups \<noteq> []
             \<and> ai_out (last ups) =
                 cross_mark @ '' No API key found. Please provide one or set the environment variable.''
             \<and> download_btn (last ups) =
                 (True, Some (''temp_outputs/prediction_'' @ model_type @ ''_results_''
                                @ str_nat now @ ''.zip''))))"
proof (intro conjI impI)
  assume "strip user_api_key \<noteq> []"
  then show "get_api_key env ai_model user_api_key = Some (strip user_api_key)"
    by (rule get_api_key_given)
next
  assume "strip user_api_key = []"
  then show "get_api_key env ai_model user_api_key =
              (if ai_model = ''DeepSeek''
               then (case env ''DEEPSEEK_API_KEY'' of
                       None \<Rightarrow> None
                     | Some v \<Rightarrow> if v = [] then None else Some v)
               else None)"
    by (rule get_api_key_blank)
next
  assume k: "get_api_key env ai_model user_api_key = None"
  from prepare_uncapped [OF assms(6), of None] obtain d' where
    d': "prepare_plotly_heatmap_data df None = Inr (Some d')"
    by blast
  have r: "resolve_summary env to_string call_ai_api df mn ai_model user_api_key = Inr no_key_text"
    by (simp add: resolve_summary_def k)
  have ps: "''temp_outputs/temp_'' @ model_type @ ''_results_'' @ str_nat now @ ''.csv''
      \<noteq> ''temp_outputs/temp_'' @ model_type @ ''_heatmap_'' @ str_nat now @ ''.html''"
    using paths_differ [of "''temp_outputs/temp_'' @ model_type @ ''_results_'' @ str_nat now"
        "''temp_outputs/temp_'' @ model_type @ ''_heatmap_'' @ str_nat now"]
    by simp
  show "\<exists>ups. handle_prediction_with_ai env run_zero_shot_prediction to_string call_ai_api now
                    model_type (Some mn) (Some f) True ai_model user_api_key =
                  (ups,
                   Inr (Some [(''temp_outputs/temp_'' @ model_type @ ''_results_'' @ str_nat now @ ''.csv'',
                               ''prediction_results.csv''),
                              (''temp_outputs/temp_'' @ model_type @ ''_heatmap_'' @ str_nat now @ ''.html'',
                               ''prediction_heatmap.html'')]))
             \<and> ups \<noteq> []
             \<and> ai_out (last ups) =
                 cross_mark @ '' No API key found. Please provide one or set the environment variable.''
             \<and> download_btn (last ups) =
                 (True, Some (''temp_outputs/prediction_'' @ model_type @ ''_results_''
                                @ str_nat now @ ''.zip''))"
    using assms(1,2,4) ps
    by (simp add: handle_prediction_with_ai_def assms(3,5,6) d' r startswith_no_key [unfolded no_key_text_def] Let_def
          no_key_text_def del: append_eq_append_conv)
qed
theorem no_key_report_witness:
  "get_api_key Map.empty ''DeepSeek'' ''  '' = None
   \<and> get_api_key Map.empty ''DeepSeek'' '' sk-1 '' = Some ''sk-1''
   \<and> (\<exists>ups. handle_prediction_with_ai Map.empty (fixed_scorer two_wild_types) count_rows
               (fixed_reply ''report'') 17 ''sequence'' (Some ''ESM2-650M'') (Some ''/tmp/p.fasta'')
               True ''DeepSeek'' ''  '' =
             (ups,
              Inr (Some [(''temp_outputs/temp_sequence_results_17.csv'', ''prediction_results.csv''),
                         (''temp_outputs/temp_sequence_heatmap_17.html'', ''prediction_heatmap.html'')]))
          \<and> ups \<noteq> [] \<and> ai_out (last ups) = no_key_text)"
proof -
  have mn: "''ESM2-650M'' \<noteq> []" and f: "''/tmp/p.fasta'' \<noteq> []"
    by simp_all
  have run: "fixed_scorer two_wild_types ''sequence'' ''ESM2-650M'' ''/tmp/p.fasta'' =
      (''Prediction completed successfully!'', two_wild_types)"
    by (simp add: fixed_scorer_def)
  have e: "\<not> empty_df two_wild_types"
    by code_simp
  have n: "get_total_residues_count two_wild_types = Inr 1"
    by code_simp
  have "map_sum id (map_option score_col) (prepare_plotly_heatmap_data two_wild_types (Some 40))
      = Inr (Some ''score'')"
    by code_simp
  from map_sum_option_SomeD [OF this] obtain d where
    d: "prepare_plotly_heatmap_data two_wild_types (Some 40) = Inr (Some d)"
    by blast
  have k: "get_api_key Map.empty ''DeepSeek'' ''  '' = None"
    by code_simp
  have s: "strip '' sk-1 '' \<noteq> []" and s': "strip '' sk-1 '' = ''sk-1''"
    by code_simp+
  have p1: "''temp_outputs/temp_'' @ ''sequence'' @ ''_results_'' @ str_nat 17 @ ''.csv''
      = ''temp_outputs/temp_sequence_results_17.csv''"
    by code_simp
  have p2: "''temp_outputs/temp_'' @ ''sequence'' @ ''_heatmap_'' @ str_nat 17 @ ''.html''
      = ''temp_outputs/temp_sequence_heatmap_17.html''"
    by code_simp
  note T = no_key_report [where run_zero_shot_prediction = "fixed_scorer two_wild_types"
      and model_type = "''sequence''" and mn = "''ESM2-650M''" and f = "''/tmp/p.fasta''"
      and status = "''Prediction completed successfully!''" and df = two_wild_types
      and n = 1 and d = d and env = Map.empty and ai_model = "''DeepSeek''"
      and to_string = count_rows and call_ai_api = "fixed_reply ''report''" and now = 17,
      OF mn f run e n d]
  from T [where user_api_key = "''  ''"] k obtain ups where
    h: "handle_prediction_with_ai Map.empty (fixed_scorer two_wild_types) count_rows
               (fixed_reply ''report'') 17 ''sequence'' (Some ''ESM2-650M'') (Some ''/tmp/p.fasta'')
               True ''DeepSeek'' ''  '' =
             (ups,
              Inr (Some [(''temp_outputs/temp_'' @ ''sequence'' @ ''_results_'' @ str_nat 17 @ ''.csv'',
                          ''prediction_results.csv''),
                         (''temp_outputs/temp_'' @ ''sequence'' @ ''_heatmap_'' @ str_nat 17 @ ''.html'',
                          ''prediction_heatmap.html'')]))"
    and u: "ups \<noteq> []"
    and a: "ai_out (last ups) =
        cross_mark @ '' No API key found. Please provide one or set the environment variable.''"
    by blast
  from h have h': "handle_prediction_with_ai Map.empty (fixed_scorer two_wild_types) count_rows
               (fixed_reply ''report'') 17 ''sequence'' (Some ''ESM2-650M'') (Some ''/tmp/p.fasta'')
               True ''DeepSeek'' ''  '' =
             (ups,
              Inr (Some [(''temp_outputs/temp_sequence_results_17.csv'', ''prediction_results.csv''),
                         (''temp_outputs/temp_sequence_heatmap_17.html'', ''prediction_heatmap.html'')]))"
    unfolding p1 p2 .
  from a have a': "ai_out (last ups) = no_key_text"
    unfolding no_key_text_def .
  from T [where user_api_key = "'' sk-1 ''"] s have "get_api_key Map.empty ''DeepSeek'' '' sk-1 '' = Some (strip '' sk-1 '')"
    by blast
  then have g: "get_api_key Map.empty ''DeepSeek'' '' sk-1 '' = Some ''sk-1''"
    unfolding s' .
  show ?thesis
    by (intro conjI exI [of _ ups]) (rule k g h' u a')+
qed

end
